theory Spec2Isabelle
  imports
    Complex_Main
    "HOL-Library.Log_Nat"
    "HOL-Library.Monad_Syntax"
    "HOL-Library.Product_Lexorder"
begin

chapter \<open>The methodology synchronisation of \<^verbatim>\<open>src/rag/github-sync.ts\<close>\<close>

text \<open>
  The class \<^verbatim>\<open>GitHubSync\<close> lists the directory \<^verbatim>\<open>methodologies\<close> of a remote
  repository, fetches every \<^verbatim>\<open>.json\<close> file of it, validates the parsed record, and
  writes it to the local directory when it is new or carries a greater version. The
  definitions below follow the TypeScript source function by function; the theorems
  after them settle what the specification says about it.
\<close>

section \<open>Definitions\<close>

subsection \<open>Numbers, as \<^verbatim>\<open>compareVersions\<close> sees them\<close>

text \<open>
  A JavaScript number is an IEEE 754 double. The finite ones are rationals, and only
  their order matters here, so a finite double is represented by its value.
  \<^verbatim>\<open>a < b\<close> and \<^verbatim>\<open>a > b\<close> are false as soon as an operand is \<^verbatim>\<open>NaN\<close>, and
  \<^verbatim>\<open>undefined\<close> (an array read past the end) is converted to \<^verbatim>\<open>NaN\<close> first.
\<close>

datatype number = NaN | NegInfinity | Finite rat | Infinity

fun num_less :: "number \<Rightarrow> number \<Rightarrow> bool" where
  "num_less NaN y = False"
| "num_less x NaN = False"
| "num_less x NegInfinity = False"
| "num_less NegInfinity y = True"
| "num_less Infinity y = False"
| "num_less (Finite a) (Finite b) = (a < b)"
| "num_less (Finite a) Infinity = True"

fun ToNumber :: "number option \<Rightarrow> number" where
  "ToNumber None = NaN"
| "ToNumber (Some n) = n"

definition js_lt :: "number option \<Rightarrow> number option \<Rightarrow> bool" where
  "js_lt a b = num_less (ToNumber a) (ToNumber b)"

definition js_gt :: "number option \<Rightarrow> number option \<Rightarrow> bool" where
  "js_gt a b = num_less (ToNumber b) (ToNumber a)"

text \<open>\<^verbatim>\<open>xs[i]\<close>: the element, or \<^verbatim>\<open>undefined\<close> (\<open>None\<close>) past the end.\<close>

definition idx :: "'a list \<Rightarrow> nat \<Rightarrow> 'a option" where
  "idx xs i = (if i < length xs then Some (xs ! i) else None)"

text \<open>
  \<^verbatim>\<open>Number(s)\<close> on a string. On a nonempty string of ASCII digits it is the double
  nearest to the decimal value, ties to the even mantissa, \<^verbatim>\<open>Infinity\<close> from
  \<open>2 ^ 1024 - 2 ^ 970\<close> on: \<open>round_double\<close>. Every integer below \<open>2 ^ 53\<close> is a
  double; above, 53 bits of mantissa are kept. What \<^verbatim>\<open>Number\<close> makes of any other
  string (the empty string, signs, exponents, hexadecimal, white space, \<^verbatim>\<open>NaN\<close> for
  the rest) is the parameter \<open>other\<close>: no result below depends on it.
\<close>

definition is_digit :: "char \<Rightarrow> bool" where
  "is_digit c = (48 \<le> (of_char c :: nat) \<and> (of_char c :: nat) \<le> 57)"

definition digit_val :: "char \<Rightarrow> nat" where
  "digit_val c = of_char c - 48"

definition decimal :: "string \<Rightarrow> nat" where
  "decimal s = foldl (\<lambda>n c. 10 * n + digit_val c) 0 s"

definition round_double :: "nat \<Rightarrow> number" where
  "round_double n =
     (if n < 2 ^ 53 then Finite (of_nat n)
      else
        let e = floorlog 2 n - 53;
            q = n div 2 ^ e;
            r = n mod 2 ^ e;
            h = 2 ^ (e - 1);
            q' = (if h < r \<or> (r = h \<and> odd q) then q + 1 else q)
        in if 2 ^ 1024 \<le> q' * 2 ^ e then Infinity else Finite (of_nat (q' * 2 ^ e)))"

definition Number :: "(string \<Rightarrow> number) \<Rightarrow> string \<Rightarrow> number" where
  "Number other s =
     (if s \<noteq> [] \<and> list_all is_digit s then round_double (decimal s) else other s)"

text \<open>
  A conversion for the concrete evaluations. It agrees with \<^verbatim>\<open>Number\<close> on the empty
  string, which is 0, and on the strings \<^verbatim>\<open>x\<close> and \<^verbatim>\<open>y\<close>, which are \<^verbatim>\<open>NaN\<close>; the
  evaluations below apply it to no other string. It is not \<^verbatim>\<open>Number\<close> on a string
  such as \<^verbatim>\<open>0x10\<close>, and stands for it nowhere else.
\<close>

definition only_digits :: "string \<Rightarrow> number" where
  "only_digits s = (if s = [] then Finite 0 else NaN)"

text \<open>
  \<^verbatim>\<open>s.split(sep)\<close> for a separator of one character. A string is its list of
  characters; the source inspects only the ASCII characters \<^verbatim>\<open>.\<close>, \<^verbatim>\<open>/\<close> and the
  digits, which no encoding of another character contains.
\<close>

fun split_str :: "char \<Rightarrow> string \<Rightarrow> string list" where
  "split_str sep [] = [[]]"
| "split_str sep (c # cs) =
     (if c = sep then [] # split_str sep cs
      else (case split_str sep cs of
              p # ps \<Rightarrow> (c # p) # ps
            | [] \<Rightarrow> [[c]]))"

subsection \<open>\<^verbatim>\<open>compareVersions\<close>\<close>

text \<open>
  \<^verbatim>\<open>
  private compareVersions(v1: string, v2: string): number {
    const parts1 = v1.split('.').map(Number);
    const parts2 = v2.split('.').map(Number);

    for (let i = 0; i < 3; i++) {
      if (parts1[i] > parts2[i]) return 1;
      if (parts1[i] < parts2[i]) return -1;
    }

    return 0;
  }
  \<close>
  \<open>compare_from\<close> is the loop, started at \<open>i = 0\<close>.
\<close>

function compare_from :: "number list \<Rightarrow> number list \<Rightarrow> nat \<Rightarrow> int" where
  "compare_from parts1 parts2 i =
     (if i < 3 then
        if js_gt (idx parts1 i) (idx parts2 i) then 1
        else if js_lt (idx parts1 i) (idx parts2 i) then - 1
        else compare_from parts1 parts2 (i + 1)
      else 0)"
  by pat_completeness auto
termination
  by (relation "measure (\<lambda>(parts1, parts2, i). 3 - i)") auto

definition compareVersions :: "(string \<Rightarrow> number) \<Rightarrow> string \<Rightarrow> string \<Rightarrow> int" where
  "compareVersions other v1 v2 =
     (let parts1 = map (Number other) (split_str CHR ''.'' v1);
          parts2 = map (Number other) (split_str CHR ''.'' v2)
      in compare_from parts1 parts2 0)"

subsection \<open>The version pattern\<close>

text \<open>
  \<^verbatim>\<open>/^\d+\.\d+\.\d+$/\<close>, without flags: \<^verbatim>\<open>\d\<close> is an ASCII digit and \<^verbatim>\<open>$\<close> the end
  of the string. A run of digits is always followed by something that is no digit, so
  the greedy match of \<^verbatim>\<open>\d+\<close> is the only one and the matcher needs no backtracking.
\<close>

definition digits1 :: "string \<Rightarrow> string option" where
  "digits1 s = (if takeWhile is_digit s = [] then None else Some (dropWhile is_digit s))"

definition literal :: "char \<Rightarrow> string \<Rightarrow> string option" where
  "literal c s = (case s of [] \<Rightarrow> None | x # r \<Rightarrow> if x = c then Some r else None)"

definition versionPattern_test :: "string \<Rightarrow> bool" where
  "versionPattern_test s =
     (digits1 s \<bind> literal CHR ''.'' \<bind> digits1 \<bind> literal CHR ''.'' \<bind> digits1 = Some [])"

subsection \<open>The comparison the specification describes\<close>

text \<open>
  The three numeric components of a version string, as integers, and the comparison
  "left to right, first difference decides" in the specification's words.
\<close>

definition components :: "string \<Rightarrow> nat list" where
  "components v = map decimal (split_str CHR ''.'' v)"

fun first_difference :: "nat list \<Rightarrow> nat list \<Rightarrow> int" where
  "first_difference (x # xs) (y # ys) =
     (if y < x then 1 else if x < y then - 1 else first_difference xs ys)"
| "first_difference xs ys = 0"

text \<open>
  The \<open>i\<close>-th component as \<^verbatim>\<open>compareVersions\<close> reads it, and when it cannot decide:
  a component that is missing or is \<^verbatim>\<open>NaN\<close> is no number. \<open>first_decided\<close> is the
  result the first position gives at which both components are numbers and differ,
  and 0 when there is none.
\<close>

definition part :: "(string \<Rightarrow> number) \<Rightarrow> string \<Rightarrow> nat \<Rightarrow> number option" where
  "part other v i = idx (map (Number other) (split_str CHR ''.'' v)) i"

definition missing_or_NaN :: "number option \<Rightarrow> bool" where
  "missing_or_NaN p = (p = None \<or> p = Some NaN)"

definition both_numbers :: "number option \<Rightarrow> number option \<Rightarrow> bool" where
  "both_numbers p q = (\<not> (missing_or_NaN p \<or> missing_or_NaN q))"

fun first_decided :: "(number option \<times> number option) list \<Rightarrow> int" where
  "first_decided [] = 0"
| "first_decided ((p, q) # rest) =
     (if both_numbers p q \<and> p \<noteq> q
      then (if num_less (ToNumber q) (ToNumber p) then 1 else - 1)
      else first_decided rest)"

definition positions :: "(string \<Rightarrow> number) \<Rightarrow> string \<Rightarrow> string \<Rightarrow> (number option \<times> number option) list" where
  "positions other v1 v2 = map (\<lambda>i. (part other v1 i, part other v2 i)) [0, 1, 2]"

text \<open>An order embedding of the numbers other than \<^verbatim>\<open>NaN\<close>, used in the proofs.\<close>

fun num_key :: "number \<Rightarrow> int \<times> rat" where
  "num_key NegInfinity = (- 1, 0)"
| "num_key (Finite q) = (0, q)"
| "num_key Infinity = (1, 0)"
| "num_key NaN = (2, 0)"

subsection \<open>Parsed JSON\<close>

text \<open>
  What \<^verbatim>\<open>JSON.parse\<close> returns. \<^verbatim>\<open>validateMethodology\<close> takes its argument as
  \<^verbatim>\<open>any\<close>, so nothing but this type restricts a candidate. An object is the list of
  its own properties, read with \<open>map_of\<close>. A numeric literal too large for a double
  parses to \<^verbatim>\<open>Infinity\<close>. \<^verbatim>\<open>undefined\<close>, the value of a property that is not there, is
  \<open>None\<close> in \<open>json option\<close>.
\<close>

datatype json =
    JNull
  | JBool bool
  | JNum number
  | JStr string
  | JArr "json list"
  | JObj "(string \<times> json) list"

text \<open>
  The exceptions. \<open>Error msg\<close> is \<^verbatim>\<open>new Error(msg)\<close>, or a rejected request whose
  message is \<open>msg\<close>; the messages of the engine's own \<^verbatim>\<open>TypeError\<close> and \<^verbatim>\<open>SyntaxError\<close>
  are not modelled.
\<close>

datatype js_error = Error string | TypeError | SyntaxError

text \<open>\<^verbatim>\<open>!x\<close> is \<open>\<not> truthy x\<close>.\<close>

fun truthy :: "json option \<Rightarrow> bool" where
  "truthy None = False"
| "truthy (Some JNull) = False"
| "truthy (Some (JBool b)) = b"
| "truthy (Some (JNum n)) = (n \<noteq> NaN \<and> n \<noteq> Finite 0)"
| "truthy (Some (JStr s)) = (s \<noteq> [])"
| "truthy (Some (JArr xs)) = True"
| "truthy (Some (JObj kvs)) = True"

text \<open>
  \<^verbatim>\<open>x.field\<close> and \<^verbatim>\<open>x[field]\<close>, for the field names the source reads (\<^verbatim>\<open>id\<close>, \<^verbatim>\<open>name\<close>,
  \<^verbatim>\<open>version\<close>, \<^verbatim>\<open>author\<close>, \<^verbatim>\<open>category\<close>, \<^verbatim>\<open>description\<close>, \<^verbatim>\<open>stages\<close>, \<^verbatim>\<open>guidance\<close>,
  \<^verbatim>\<open>email\<close>): none of them is a property of a string, a number, a boolean, an array or
  of \<^verbatim>\<open>Object.prototype\<close>, so only an object's own property gives a value. Reading a
  property of \<^verbatim>\<open>null\<close> throws a \<^verbatim>\<open>TypeError\<close>.
\<close>

fun get :: "json \<Rightarrow> string \<Rightarrow> js_error + json option" where
  "get JNull field = Inl TypeError"
| "get (JObj kvs) field = Inr (map_of kvs field)"
| "get v field = Inr None"

subsection \<open>\<^verbatim>\<open>versionPattern.test(methodology.version)\<close> on any value\<close>

text \<open>
  \<^verbatim>\<open>RegExp.prototype.test\<close> converts its argument with \<^verbatim>\<open>String\<close> first.
  \<^item> \<^verbatim>\<open>String\<close> of an object calls its \<^verbatim>\<open>toString\<close>: that of \<^verbatim>\<open>Object.prototype\<close>
    gives \<^verbatim>\<open>"[object Object]"\<close>, but an own property \<^verbatim>\<open>toString\<close> of a parsed object is
    never a function, and then the conversion throws a \<^verbatim>\<open>TypeError\<close>.
  \<^item> \<^verbatim>\<open>String\<close> of an array joins the \<^verbatim>\<open>String\<close> of its elements with commas, \<^verbatim>\<open>null\<close>
    giving the empty string. No comma matches the pattern, so an array matches only
    when it has one element and that element matches.
  \<^item> \<^verbatim>\<open>String\<close> of a number has at most one dot; of \<^verbatim>\<open>null\<close>, \<^verbatim>\<open>true\<close> and \<^verbatim>\<open>false\<close> it
    has none.
\<close>

fun String_throws :: "json \<Rightarrow> bool" where
  "String_throws (JObj kvs) = (map_of kvs ''toString'' \<noteq> None)"
| "String_throws (JArr xs) = list_ex String_throws xs"
| "String_throws v = False"

fun String_matches :: "json \<Rightarrow> bool" where
  "String_matches (JStr s) = versionPattern_test s"
| "String_matches (JArr [x]) = String_matches x"
| "String_matches v = False"

definition versionPattern_test_any :: "json option \<Rightarrow> js_error + bool" where
  "versionPattern_test_any v =
     (case v of
        None \<Rightarrow> Inr False
      | Some x \<Rightarrow> if String_throws x then Inl TypeError else Inr (String_matches x))"

subsection \<open>\<^verbatim>\<open>validateMethodology\<close>\<close>

text \<open>
  \<^verbatim>\<open>
  private validateMethodology(methodology: any): void {
    const required = ['id', 'name', 'version', 'author', 'category', 'description', 'stages'];

    for (const field of required) {
      if (!methodology[field]) {
        throw new Error(`Missing required field: ${field}`);
      }
    }

    if (!Array.isArray(methodology.stages) || methodology.stages.length === 0) {
      throw new Error('Methodology must have at least one stage');
    }

    // Validate each stage
    for (const stage of methodology.stages) {
      if (!stage.name || !stage.description || !stage.guidance) {
        throw new Error('Each stage must have name, description, and guidance');
      }
    }

    // Validate author
    if (!methodology.author.name || !methodology.author.email) {
      throw new Error('Author must have name and email');
    }

    // Validate version format (semver)
    const versionPattern = /^\d+\.\d+\.\d+$/;
    if (!versionPattern.test(methodology.version)) {
      throw new Error('Version must follow semver format (e.g., 1.0.0)');
    }
  }
  \<close>
  A result \<open>Inl e\<close> is the exception \<open>e\<close> thrown, \<open>Inr ()\<close> the normal return.
\<close>

definition required :: "string list" where
  "required = [''id'', ''name'', ''version'', ''author'', ''category'', ''description'', ''stages'']"

fun check_required :: "json \<Rightarrow> string list \<Rightarrow> js_error + unit" where
  "check_required methodology [] = Inr ()"
| "check_required methodology (field # fields) =
     (case get methodology field of
        Inl e \<Rightarrow> Inl e
      | Inr v \<Rightarrow>
          if \<not> truthy v then Inl (Error (''Missing required field: '' @ field))
          else check_required methodology fields)"

text \<open>
  \<^verbatim>\<open>!a.f || !a.g || ...\<close>: the properties are read in order until one is falsy; a read
  that throws ends the evaluation.
\<close>

fun some_falsy :: "json \<Rightarrow> string list \<Rightarrow> js_error + bool" where
  "some_falsy x [] = Inr False"
| "some_falsy x (field # fields) =
     (case get x field of
        Inl e \<Rightarrow> Inl e
      | Inr v \<Rightarrow> if \<not> truthy v then Inr True else some_falsy x fields)"

fun check_stages :: "json list \<Rightarrow> js_error + unit" where
  "check_stages [] = Inr ()"
| "check_stages (stage # stages) =
     (case some_falsy stage [''name'', ''description'', ''guidance''] of
        Inl e \<Rightarrow> Inl e
      | Inr True \<Rightarrow> Inl (Error ''Each stage must have name, description, and guidance'')
      | Inr False \<Rightarrow> check_stages stages)"

definition check_author :: "json option \<Rightarrow> js_error + unit" where
  "check_author author =
     (case author of
        None \<Rightarrow> Inl TypeError
      | Some a \<Rightarrow>
          (case some_falsy a [''name'', ''email''] of
             Inl e \<Rightarrow> Inl e
           | Inr True \<Rightarrow> Inl (Error ''Author must have name and email'')
           | Inr False \<Rightarrow> Inr ()))"

definition check_version :: "json option \<Rightarrow> js_error + unit" where
  "check_version version =
     (case versionPattern_test_any version of
        Inl e \<Rightarrow> Inl e
      | Inr False \<Rightarrow> Inl (Error ''Version must follow semver format (e.g., 1.0.0)'')
      | Inr True \<Rightarrow> Inr ())"

definition validateMethodology :: "json \<Rightarrow> js_error + unit" where
  "validateMethodology methodology =
     (case check_required methodology required of
        Inl e \<Rightarrow> Inl e
      | Inr _ \<Rightarrow>
     (case get methodology ''stages'' of
        Inl e \<Rightarrow> Inl e
      | Inr (Some (JArr stages)) \<Rightarrow>
          if stages = [] then Inl (Error ''Methodology must have at least one stage'')
          else
            (case check_stages stages of
               Inl e \<Rightarrow> Inl e
             | Inr _ \<Rightarrow>
            (case get methodology ''author'' of
               Inl e \<Rightarrow> Inl e
             | Inr author \<Rightarrow>
            (case check_author author of
               Inl e \<Rightarrow> Inl e
             | Inr _ \<Rightarrow>
            (case get methodology ''version'' of
               Inl e \<Rightarrow> Inl e
             | Inr version \<Rightarrow> check_version version))))
      | Inr _ \<Rightarrow> Inl (Error ''Methodology must have at least one stage'')))"

subsection \<open>The remote repository and the local directory\<close>

text \<open>
  An entry of the directory listing, with the three fields the source reads:
  \<^verbatim>\<open>file.type\<close>, \<^verbatim>\<open>file.name\<close> and \<^verbatim>\<open>file.path\<close>, strings as the type of the
  response has them.
\<close>

record entry =
  ent_type :: string
  ent_name :: string
  ent_path :: string

text \<open>
  The answers of \<^verbatim>\<open>octokit.repos.getContent\<close>. For the directory: the request is
  rejected (not found, not authorised, rate limited) with a message, or its data is no
  array, or it is the array of entries. For a file: the request is rejected with a
  message, or the data is no file with a \<^verbatim>\<open>content\<close>, or it is a file; the decoded
  content is represented by what \<^verbatim>\<open>JSON.parse\<close> makes of it, \<open>None\<close> when it throws.
  With them the environment holds the clock and what \<^verbatim>\<open>fs.mkdirSync\<close> does when the
  local directory has to be made: \<open>None\<close> when it succeeds, the message of its
  exception otherwise.
\<close>

datatype listing = ListingError string | NotArray | Entries "entry list"

datatype fetched = FetchError string | NotFile | FileData "json option"

record env =
  listing :: listing
  content :: "string \<Rightarrow> fetched"
  now :: nat
  mkdirSync :: "string option"

text \<open>
  The local directory \<^verbatim>\<open>config.localDir\<close>: its files by name. The text of a file is
  represented by what \<^verbatim>\<open>JSON.parse\<close> makes of it. \<open>requests\<close> records, in order, the
  paths \<^verbatim>\<open>getContent\<close> was called with. Reading and writing a file of the directory
  are taken to succeed; making the directory may fail, as the environment says.
\<close>

datatype local_file = Unparseable | Parsed json

record world =
  files :: "string \<rightharpoonup> local_file"
  localDir_exists :: bool
  lastSync :: "nat option"
  requests :: "string list"

text \<open>
  The three arrays of a run. An entry \<open>(name, e)\<close> of \<open>errors\<close> is the string
  \<^verbatim>\<open>`${file.name}: ${error}`\<close> for the message of \<open>e\<close>. The source pushes
  \<^verbatim>\<open>methodology.id\<close> as it is, whatever its type.
\<close>

record outcome =
  added :: "json option list"
  updated :: "json option list"
  errors :: "(string \<times> js_error) list"

definition no_outcome :: outcome where
  "no_outcome = \<lparr>added = [], updated = [], errors = []\<rparr>"

text \<open>
  \<^verbatim>\<open>JSON.parse(JSON.stringify(m, null, 2))\<close>: what a later run reads from the file
  written for \<open>m\<close>. \<^verbatim>\<open>JSON.stringify\<close> writes \<^verbatim>\<open>null\<close> for a number that is not finite.
\<close>

fun stored :: "json \<Rightarrow> json" where
  "stored (JNum n) = (case n of Finite q \<Rightarrow> JNum (Finite q) | _ \<Rightarrow> JNull)"
| "stored (JArr xs) = JArr (map stored xs)"
| "stored (JObj kvs) = JObj (map (\<lambda>kv. (fst kv, stored (snd kv))) kvs)"
| "stored v = v"

text \<open>\<^verbatim>\<open>path.basename(p)\<close> (POSIX) and \<^verbatim>\<open>s.endsWith(suffix)\<close>.\<close>

definition basename :: "string \<Rightarrow> string" where
  "basename p =
     rev (takeWhile (\<lambda>c. c \<noteq> CHR ''/'') (dropWhile (\<lambda>c. c = CHR ''/'') (rev p)))"

definition endsWith :: "string \<Rightarrow> string \<Rightarrow> bool" where
  "endsWith s suffix = (take (length suffix) (rev s) = rev suffix)"

subsection \<open>\<^verbatim>\<open>syncMethodologyFile\<close>\<close>

text \<open>
  The call \<^verbatim>\<open>compareVersions(methodology.version, localMethodology.version)\<close>: the
  arguments are whatever the two records hold, and \<^verbatim>\<open>v.split\<close> is a function only on a
  string.
\<close>

definition compareVersions_call ::
  "(string \<Rightarrow> number) \<Rightarrow> json option \<Rightarrow> json option \<Rightarrow> js_error + int" where
  "compareVersions_call other v1 v2 =
     (case v1 of
        Some (JStr s1) \<Rightarrow>
          (case v2 of
             Some (JStr s2) \<Rightarrow> Inr (compareVersions other s1 s2)
           | _ \<Rightarrow> Inl TypeError)
      | _ \<Rightarrow> Inl TypeError)"

text \<open>
  The end of \<^verbatim>\<open>syncMethodologyFile\<close>:
  \<^verbatim>\<open>
      // Write to local file
      fs.writeFileSync(localPath, JSON.stringify(methodology, null, 2), 'utf-8');

      if (isUpdate) {
        updated.push(methodology.id);
      } else {
        added.push(methodology.id);
      }
  \<close>
\<close>

definition persist ::
  "string \<Rightarrow> json \<Rightarrow> bool \<Rightarrow> world \<times> outcome \<Rightarrow> (js_error + unit) \<times> world \<times> outcome" where
  "persist localPath methodology isUpdate st =
     (case st of (w, out) \<Rightarrow>
        let w' = w\<lparr>files := (files w)(localPath \<mapsto> Parsed (stored methodology))\<rparr> in
        (case get methodology ''id'' of
           Inl e \<Rightarrow> (Inl e, w', out)
         | Inr i \<Rightarrow>
             if isUpdate then (Inr (), w', out\<lparr>updated := updated out @ [i]\<rparr>)
             else (Inr (), w', out\<lparr>added := added out @ [i]\<rparr>)))"

text \<open>
  \<^verbatim>\<open>
    const { data: fileData } = await this.octokit.repos.getContent({
      owner,
      repo,
      path: filePath,
    });

    if ('content' in fileData && fileData.type === 'file') {
      // Decode base64 content
      const content = Buffer.from(fileData.content, 'base64').toString('utf-8');

      // Validate JSON
      let methodology: Methodology;
      try {
        methodology = JSON.parse(content);
      } catch (err) {
        throw new Error('Invalid JSON format');
      }

      // Validate methodology structure
      this.validateMethodology(methodology);

      // Check if local file exists
      const localPath = path.join(this.config.localDir, path.basename(filePath));
      const isUpdate = fs.existsSync(localPath);

      // Check version if updating
      if (isUpdate) {
        const localContent = fs.readFileSync(localPath, 'utf-8');
        const localMethodology = JSON.parse(localContent) as Methodology;

        // Only update if GitHub version is newer
        if (this.compareVersions(methodology.version, localMethodology.version) <= 0) {
          // Local version is same or newer, skip
          return;
        }
      }
      ...
    }
  \<close>
  \<open>process_file\<close> is the function from the point where the awaited request has
  settled with \<open>fileData\<close>; \<open>syncMethodologyFile\<close> issues the request first. The result
  pairs the thrown exception, or the normal return, with the state reached.
\<close>

definition process_file ::
  "(string \<Rightarrow> number) \<Rightarrow> fetched \<Rightarrow> string \<Rightarrow> world \<times> outcome
     \<Rightarrow> (js_error + unit) \<times> world \<times> outcome" where
  "process_file other fileData filePath st =
     (case st of (w, out) \<Rightarrow>
      (case fileData of
         FetchError msg \<Rightarrow> (Inl (Error msg), w, out)
       | NotFile \<Rightarrow> (Inr (), w, out)
       | FileData None \<Rightarrow> (Inl (Error ''Invalid JSON format''), w, out)
       | FileData (Some methodology) \<Rightarrow>
           (case validateMethodology methodology of
              Inl e \<Rightarrow> (Inl e, w, out)
            | Inr _ \<Rightarrow>
                let localPath = basename filePath in
                (case files w localPath of
                   None \<Rightarrow> persist localPath methodology False (w, out)
                 | Some Unparseable \<Rightarrow> (Inl SyntaxError, w, out)
                 | Some (Parsed localMethodology) \<Rightarrow>
                     (case get methodology ''version'' of
                        Inl e \<Rightarrow> (Inl e, w, out)
                      | Inr v1 \<Rightarrow>
                     (case get localMethodology ''version'' of
                        Inl e \<Rightarrow> (Inl e, w, out)
                      | Inr v2 \<Rightarrow>
                     (case compareVersions_call other v1 v2 of
                        Inl e \<Rightarrow> (Inl e, w, out)
                      | Inr c \<Rightarrow>
                          if c \<le> 0 then (Inr (), w, out)
                          else persist localPath methodology True (w, out))))))))"

definition syncMethodologyFile ::
  "(string \<Rightarrow> number) \<Rightarrow> env \<Rightarrow> string \<Rightarrow> world \<times> outcome
     \<Rightarrow> (js_error + unit) \<times> world \<times> outcome" where
  "syncMethodologyFile other env filePath st =
     (case st of (w, out) \<Rightarrow>
        process_file other (content env filePath) filePath
          (w\<lparr>requests := requests w @ [filePath]\<rparr>, out))"

subsection \<open>\<^verbatim>\<open>syncFromGitHub\<close>\<close>

text \<open>
  The loop of \<^verbatim>\<open>syncFromGitHub\<close>:
  \<^verbatim>\<open>
      for (const file of contents) {
        if (file.type === 'file' && file.name.endsWith('.json')) {
          try {
            await this.syncMethodologyFile(owner, repo, file.path, added, updated);
          } catch (err) {
            const error = err instanceof Error ? err.message : String(err);
            errors.push(`${file.name}: ${error}`);
            console.error(`Failed to sync ${file.name}:`, error);
          }
        }
      }
  \<close>
\<close>

definition is_methodology_file :: "entry \<Rightarrow> bool" where
  "is_methodology_file file = (ent_type file = ''file'' \<and> endsWith (ent_name file) ''.json'')"

definition catch_file_error ::
  "entry \<Rightarrow> (js_error + unit) \<times> world \<times> outcome \<Rightarrow> world \<times> outcome" where
  "catch_file_error file r =
     (case r of
        (Inl err, w, out) \<Rightarrow> (w, out\<lparr>errors := errors out @ [(ent_name file, err)]\<rparr>)
      | (Inr _, w, out) \<Rightarrow> (w, out))"

definition sync_entry ::
  "(string \<Rightarrow> number) \<Rightarrow> env \<Rightarrow> entry \<Rightarrow> world \<times> outcome \<Rightarrow> world \<times> outcome" where
  "sync_entry other env file st =
     (if is_methodology_file file
      then catch_file_error file (syncMethodologyFile other env (ent_path file) st)
      else st)"

fun sync_entries ::
  "(string \<Rightarrow> number) \<Rightarrow> env \<Rightarrow> entry list \<Rightarrow> world \<times> outcome \<Rightarrow> world \<times> outcome" where
  "sync_entries other env [] st = st"
| "sync_entries other env (file # contents) st =
     sync_entries other env contents (sync_entry other env file st)"

text \<open>
  \<^verbatim>\<open>
  async syncFromGitHub(): Promise<{ added: string[]; updated: string[]; errors: string[]; }> {
    const [owner, repo] = this.config.repo.split('/');
    const added: string[] = [];
    const updated: string[] = [];
    const errors: string[] = [];

    try {
      console.error(`Syncing methodologies from ${this.config.repo}...`);

      // Get repository contents
      const { data: contents } = await this.octokit.repos.getContent({
        owner,
        repo,
        path: 'methodologies',
      });

      if (!Array.isArray(contents)) {
        throw new Error('Methodologies directory not found or not a directory');
      }

      // Ensure local directory exists
      if (!fs.existsSync(this.config.localDir)) {
        fs.mkdirSync(this.config.localDir, { recursive: true });
      }

      // Process each methodology file
      ...
      this.lastSync = new Date();
      return { added, updated, errors };
    } catch (err) {
      const error = err instanceof Error ? err.message : String(err);
      console.error('GitHub sync failed:', error);
      throw new Error(`Failed to sync from GitHub: ${error}`);
    }
  }
  \<close>
  \<open>run_listed\<close> is the function from the point where the listing request has settled,
  and \<open>ensure_localDir\<close> the step that makes the local directory: its exception is thrown
  inside the outer \<^verbatim>\<open>try\<close>, outside the loop's.
\<close>

definition ensure_localDir :: "env \<Rightarrow> world \<Rightarrow> string + world" where
  "ensure_localDir env w =
     (if \<not> localDir_exists w
      then (case mkdirSync env of
              Some msg \<Rightarrow> Inl msg
            | None \<Rightarrow> Inr (w\<lparr>localDir_exists := True\<rparr>))
      else Inr w)"

definition run_listed ::
  "(string \<Rightarrow> number) \<Rightarrow> env \<Rightarrow> world \<Rightarrow> (js_error + outcome) \<times> world" where
  "run_listed other env w =
     (case listing env of
        ListingError msg \<Rightarrow> (Inl (Error (''Failed to sync from GitHub: '' @ msg)), w)
      | NotArray \<Rightarrow>
          (Inl (Error (''Failed to sync from GitHub: ''
             @ ''Methodologies directory not found or not a directory'')), w)
      | Entries contents \<Rightarrow>
          (case ensure_localDir env w of
             Inl msg \<Rightarrow> (Inl (Error (''Failed to sync from GitHub: '' @ msg)), w)
           | Inr w1 \<Rightarrow>
               (case sync_entries other env contents (w1, no_outcome) of
                  (w', out) \<Rightarrow> (Inr out, w'\<lparr>lastSync := Some (now env)\<rparr>))))"

definition syncFromGitHub ::
  "(string \<Rightarrow> number) \<Rightarrow> env \<Rightarrow> world \<Rightarrow> (js_error + outcome) \<times> world" where
  "syncFromGitHub other env w =
     run_listed other env (w\<lparr>requests := requests w @ [''methodologies'']\<rparr>)"

text \<open>\<^verbatim>\<open>async forceSync(): Promise<void> { await this.syncFromGitHub(); }\<close>\<close>

definition forceSync ::
  "(string \<Rightarrow> number) \<Rightarrow> env \<Rightarrow> world \<Rightarrow> (js_error + unit) \<times> world" where
  "forceSync other env w =
     (case syncFromGitHub other env w of
        (Inl e, w') \<Rightarrow> (Inl e, w')
      | (Inr out, w') \<Rightarrow> (Inr (), w'))"

subsection \<open>Interleaved runs\<close>

text \<open>
  \<^verbatim>\<open>syncFromGitHub\<close> is an \<^verbatim>\<open>async\<close> function: a call runs up to its first \<^verbatim>\<open>await\<close>
  and returns a pending promise; the rest runs when the awaited request settles, up
  to the next \<^verbatim>\<open>await\<close>. Between two awaits a run is atomic, and at an \<^verbatim>\<open>await\<close> any
  other run may go on. A run is suspended either at the listing request or at the
  request for one file (with the entries still to come and its three arrays), or its
  promise has settled.
\<close>

datatype run =
    AwaitListing
  | AwaitFile entry "entry list" outcome
  | Settled "js_error + outcome"

text \<open>
  The loop from the entry list \<open>contents\<close> on, up to the next request: entries that
  are no methodology file are passed, and after the last entry the run sets
  \<^verbatim>\<open>lastSync\<close> and returns.
\<close>

fun advance :: "env \<Rightarrow> entry list \<Rightarrow> outcome \<Rightarrow> world \<Rightarrow> run \<times> world" where
  "advance env [] out w = (Settled (Inr out), w\<lparr>lastSync := Some (now env)\<rparr>)"
| "advance env (file # contents) out w =
     (if is_methodology_file file
      then (AwaitFile file contents out, w\<lparr>requests := requests w @ [ent_path file]\<rparr>)
      else advance env contents out w)"

text \<open>One step of a run: the awaited request settles and the run goes on to its next await.\<close>

fun resume :: "(string \<Rightarrow> number) \<Rightarrow> env \<Rightarrow> run \<Rightarrow> world \<Rightarrow> run \<times> world" where
  "resume other env AwaitListing w =
     (case listing env of
        ListingError msg \<Rightarrow> (Settled (Inl (Error (''Failed to sync from GitHub: '' @ msg))), w)
      | NotArray \<Rightarrow>
          (Settled (Inl (Error (''Failed to sync from GitHub: ''
             @ ''Methodologies directory not found or not a directory''))), w)
      | Entries contents \<Rightarrow>
          (case ensure_localDir env w of
             Inl msg \<Rightarrow> (Settled (Inl (Error (''Failed to sync from GitHub: '' @ msg))), w)
           | Inr w1 \<Rightarrow> advance env contents no_outcome w1))"
| "resume other env (AwaitFile file contents out) w =
     (case catch_file_error file
             (process_file other (content env (ent_path file)) (ent_path file) (w, out)) of
        (w', out') \<Rightarrow> advance env contents out' w')"
| "resume other env (Settled r) w = (Settled r, w)"

text \<open>
  The state of a \<^verbatim>\<open>GitHubSync\<close> object and its environment: the world, the runs
  started so far, and whether the interval timer \<^verbatim>\<open>syncTimer\<close> is set. The class has
  no field that records a run in flight.
\<close>

record engine =
  world :: world
  runs :: "run list"
  syncTimer :: bool

text \<open>
  A call of \<^verbatim>\<open>syncFromGitHub\<close>, up to its first await: it sends the listing request.
  \<^verbatim>\<open>forceSync\<close> calls it, and so does the timer's callback when the timer is set.
\<close>

definition start_run :: "engine \<Rightarrow> engine" where
  "start_run e =
     e\<lparr>world := (world e)\<lparr>requests := requests (world e) @ [''methodologies'']\<rparr>,
       runs := runs e @ [AwaitListing]\<rparr>"

definition triggerSync :: "engine \<Rightarrow> engine" where
  "triggerSync e = start_run e"

definition timer_fire :: "engine \<Rightarrow> engine" where
  "timer_fire e = (if syncTimer e then start_run e else e)"

definition stopAutoSync :: "engine \<Rightarrow> engine" where
  "stopAutoSync e = e\<lparr>syncTimer := False\<rparr>"

text \<open>The request awaited by run \<open>i\<close> settles.\<close>

definition resume_run :: "(string \<Rightarrow> number) \<Rightarrow> env \<Rightarrow> nat \<Rightarrow> engine \<Rightarrow> engine" where
  "resume_run other env i e =
     (if i < length (runs e)
      then (case resume other env (runs e ! i) (world e) of
              (r, w) \<Rightarrow> e\<lparr>world := w, runs := (runs e)[i := r]\<rparr>)
      else e)"

fun in_flight :: "run \<Rightarrow> bool" where
  "in_flight (Settled r) = False"
| "in_flight r = True"

definition runs_in_flight :: "engine \<Rightarrow> nat" where
  "runs_in_flight e = length (filter in_flight (runs e))"

text \<open>A run taken alone, for a given number of steps.\<close>

fun finish :: "(string \<Rightarrow> number) \<Rightarrow> env \<Rightarrow> nat \<Rightarrow> run \<times> world \<Rightarrow> run \<times> world" where
  "finish other env 0 rw = rw"
| "finish other env (Suc n) rw = finish other env n (resume other env (fst rw) (snd rw))"

subsection \<open>The validator as the specification describes it\<close>

text \<open>
  The five rules of the specification, in its order, over the fields of a record
  (a value that is no object has none), and the error that names each rule. "Present
  and non-empty" is read as JavaScript reads \<^verbatim>\<open>!x\<close>; the version rule is the
  specification's: a string that matches the pattern.
\<close>

definition own :: "json \<Rightarrow> string \<Rightarrow> json option" where
  "own x f = (case x of JObj kvs \<Rightarrow> map_of kvs f | _ \<Rightarrow> None)"

definition has_all :: "json \<Rightarrow> string list \<Rightarrow> bool" where
  "has_all x fs = list_all (\<lambda>f. truthy (own x f)) fs"

definition stages_of :: "json \<Rightarrow> json list" where
  "stages_of m = (case own m ''stages'' of Some (JArr xs) \<Rightarrow> xs | _ \<Rightarrow> [])"

datatype rule =
    MandatoryField string
  | NonemptyStages
  | StageFields
  | AuthorFields
  | VersionPattern

definition first_failing_rule :: "json \<Rightarrow> rule option" where
  "first_failing_rule m =
     (case find (\<lambda>f. \<not> truthy (own m f)) required of
        Some f \<Rightarrow> Some (MandatoryField f)
      | None \<Rightarrow>
          if stages_of m = [] then Some NonemptyStages
          else if \<not> list_all (\<lambda>s. has_all s [''name'', ''description'', ''guidance''])
                    (stages_of m)
          then Some StageFields
          else if \<not> (case own m ''author'' of
                        Some a \<Rightarrow> has_all a [''name'', ''email'']
                      | None \<Rightarrow> False)
          then Some AuthorFields
          else if \<not> (case own m ''version'' of
                        Some (JStr s) \<Rightarrow> versionPattern_test s
                      | _ \<Rightarrow> False)
          then Some VersionPattern
          else None)"

fun rule_error :: "rule \<Rightarrow> js_error" where
  "rule_error (MandatoryField f) = Error (''Missing required field: '' @ f)"
| "rule_error NonemptyStages = Error ''Methodology must have at least one stage''"
| "rule_error StageFields = Error ''Each stage must have name, description, and guidance''"
| "rule_error AuthorFields = Error ''Author must have name and email''"
| "rule_error VersionPattern = Error ''Version must follow semver format (e.g., 1.0.0)''"

text \<open>
  A candidate with no \<^verbatim>\<open>null\<close> where the validator reads a property, and whose
  version is no array and no object with a property \<^verbatim>\<open>toString\<close>: the cases in which
  a property read or the conversion of the version to a string goes its own way.
\<close>

definition plain :: "json \<Rightarrow> bool" where
  "plain m =
     (m \<noteq> JNull \<and> JNull \<notin> set (stages_of m) \<and>
      (case own m ''version'' of
         Some (JArr xs) \<Rightarrow> False
       | Some (JObj kvs) \<Rightarrow> map_of kvs ''toString'' = None
       | _ \<Rightarrow> True))"

subsection \<open>The store as the specification sees it\<close>

text \<open>
  The specification speaks of a catalog keyed by the record's \<^verbatim>\<open>id\<close>: a local entry
  for an id is any local file whose record has that id.
\<close>



text \<open>
  A failure of a file in the specification's sense: the request fails, the content does
  not parse, or the record does not validate.
\<close>

definition file_failure :: "env \<Rightarrow> entry \<Rightarrow> js_error option" where
  "file_failure env file =
     (case content env (ent_path file) of
        FetchError msg \<Rightarrow> Some (Error msg)
      | NotFile \<Rightarrow> None
      | FileData None \<Rightarrow> Some (Error ''Invalid JSON format'')
      | FileData (Some methodology) \<Rightarrow>
          (case validateMethodology methodology of Inl e \<Rightarrow> Some e | Inr _ \<Rightarrow> None))"

definition record_failure :: "entry \<Rightarrow> js_error \<Rightarrow> world \<times> outcome \<Rightarrow> world \<times> outcome" where
  "record_failure file e st =
     (case st of (w, out) \<Rightarrow>
        (w\<lparr>requests := requests w @ [ent_path file]\<rparr>,
         out\<lparr>errors := errors out @ [(ent_name file, e)]\<rparr>))"

subsection \<open>What a file does to the store, as a function of the local file\<close>

text \<open>
  The decision \<^verbatim>\<open>syncMethodologyFile\<close> takes depends on the fetched data and on the
  local file of the same name only. It is used to prove idempotence.
\<close>

datatype decision = Fail js_error | Skip | Write json bool

definition decide :: "(string \<Rightarrow> number) \<Rightarrow> fetched \<Rightarrow> local_file option \<Rightarrow> decision" where
  "decide other fileData lf =
     (case fileData of
        FetchError msg \<Rightarrow> Fail (Error msg)
      | NotFile \<Rightarrow> Skip
      | FileData None \<Rightarrow> Fail (Error ''Invalid JSON format'')
      | FileData (Some methodology) \<Rightarrow>
          (case validateMethodology methodology of
             Inl e \<Rightarrow> Fail e
           | Inr _ \<Rightarrow>
               (case lf of
                  None \<Rightarrow> Write methodology False
                | Some Unparseable \<Rightarrow> Fail SyntaxError
                | Some (Parsed localMethodology) \<Rightarrow>
                    (case get methodology ''version'' of
                       Inl e \<Rightarrow> Fail e
                     | Inr v1 \<Rightarrow>
                    (case get localMethodology ''version'' of
                       Inl e \<Rightarrow> Fail e
                     | Inr v2 \<Rightarrow>
                    (case compareVersions_call other v1 v2 of
                       Inl e \<Rightarrow> Fail e
                     | Inr c \<Rightarrow> if c \<le> 0 then Skip else Write methodology True))))))"

text \<open>\<^verbatim>\<open>methodology.id\<close> of a record that is not \<^verbatim>\<open>null\<close>.\<close>

definition id_of :: "json \<Rightarrow> json option" where
  "id_of methodology = (case get methodology ''id'' of Inl e \<Rightarrow> None | Inr i \<Rightarrow> i)"

fun is_Write :: "decision \<Rightarrow> bool" where
  "is_Write (Write m u) = True"
| "is_Write d = False"

definition quiet :: "(string \<Rightarrow> number) \<Rightarrow> env \<Rightarrow> (string \<rightharpoonup> local_file) \<Rightarrow> entry \<Rightarrow> bool" where
  "quiet other env fs file =
     (\<not> is_methodology_file file \<or>
      \<not> is_Write (decide other (content env (ent_path file)) (fs (basename (ent_path file)))))"

definition local_names :: "entry list \<Rightarrow> string list" where
  "local_names contents = map (\<lambda>file. basename (ent_path file)) (filter is_methodology_file contents)"

subsection \<open>Sample data\<close>

text \<open>
  A record that passes validation, a listing entry as the remote repository gives it,
  a remote repository with the given files, and the state of a fresh process.
\<close>

definition sample :: "string \<Rightarrow> string \<Rightarrow> json" where
  "sample i v =
     JObj [(''id'', JStr i), (''name'', JStr ''Grounded Theory''), (''version'', JStr v),
           (''author'', JObj [(''name'', JStr ''K. Charmaz''), (''email'', JStr ''kc@example.org'')]),
           (''category'', JStr ''theory-building''), (''description'', JStr ''Constructivist GT''),
           (''stages'', JArr [JObj [(''name'', JStr ''Initial coding''),
                                    (''description'', JStr ''Line by line''),
                                    (''guidance'', JStr ''Stay close to the data'')]])]"


definition json_entry :: "string \<Rightarrow> entry" where
  "json_entry n = \<lparr>ent_type = ''file'', ent_name = n, ent_path = ''methodologies/'' @ n\<rparr>"

definition repository :: "(string \<times> fetched) list \<Rightarrow> env" where
  "repository tbl =
     \<lparr>listing = Entries (map (\<lambda>nf. json_entry (fst nf)) tbl),
      content = (\<lambda>p. case map_of (map (\<lambda>nf. (''methodologies/'' @ fst nf, snd nf)) tbl) p of
                       Some r \<Rightarrow> r
                     | None \<Rightarrow> FetchError ''Not Found''),
      now = 1,
      mkdirSync = None\<rparr>"

definition fresh :: world where
  "fresh = \<lparr>files = Map.empty, localDir_exists = False, lastSync = None, requests = []\<rparr>"

definition idle :: engine where
  "idle = \<lparr>world = fresh, runs = [], syncTimer = True\<rparr>"

section \<open>The version comparator\<close>

subsection \<open>Auxiliary facts\<close>

lemma is_digit_not_dot: "is_digit c \<Longrightarrow> c \<noteq> CHR ''.''"
  by (auto simp: is_digit_def)

lemma split_str_no_sep: "sep \<notin> set s \<Longrightarrow> split_str sep s = [s]"
  by (induction s) auto

lemma split_str_append_sep:
  "sep \<notin> set a \<Longrightarrow> split_str sep (a @ sep # r) = a # split_str sep r"
  by (induction a) auto

lemma digits1_Some:
  "digits1 s = Some r \<Longrightarrow> \<exists>a. s = a @ r \<and> a \<noteq> [] \<and> list_all is_digit a"
  by (rule exI [of _ "takeWhile is_digit s"])
     (auto simp: digits1_def list_all_iff split: if_splits dest: set_takeWhileD)

lemma literal_Some: "literal c s = Some r \<Longrightarrow> s = c # r"
  by (auto simp: literal_def split: list.splits if_splits)

lemma versionPattern_shape:
  assumes "versionPattern_test v"
  shows "\<exists>a b c. v = a @ CHR ''.'' # b @ CHR ''.'' # c \<and>
           a \<noteq> [] \<and> list_all is_digit a \<and> b \<noteq> [] \<and> list_all is_digit b \<and>
           c \<noteq> [] \<and> list_all is_digit c"
proof -
  from assms obtain r1 r2 r3 r4 where
    1: "digits1 v = Some r1" and 2: "literal CHR ''.'' r1 = Some r2" and
    3: "digits1 r2 = Some r3" and 4: "literal CHR ''.'' r3 = Some r4" and
    5: "digits1 r4 = Some []"
    by (auto simp: versionPattern_test_def bind_eq_Some_conv)
  from digits1_Some [OF 1] obtain a where a: "v = a @ r1" "a \<noteq> []" "list_all is_digit a" by blast
  from digits1_Some [OF 3] obtain b where b: "r2 = b @ r3" "b \<noteq> []" "list_all is_digit b" by blast
  from digits1_Some [OF 5] obtain c where c: "r4 = c" "c \<noteq> []" "list_all is_digit c" by auto
  from a b c literal_Some [OF 2] literal_Some [OF 4] show ?thesis by auto
qed

lemma digits_no_dot: "list_all is_digit a \<Longrightarrow> CHR ''.'' \<notin> set a"
  by (auto simp: list_all_iff dest: is_digit_not_dot)

lemma split_version:
  assumes "list_all is_digit a" "list_all is_digit b" "list_all is_digit c"
  shows "split_str CHR ''.'' (a @ CHR ''.'' # b @ CHR ''.'' # c) = [a, b, c]"
  using assms by (simp add: split_str_append_sep split_str_no_sep digits_no_dot)


lemma round_double_not_NaN: "round_double n \<noteq> NaN"
  by (simp add: round_double_def Let_def)

lemma round_double_exact: "n < 2 ^ 53 \<Longrightarrow> round_double n = Finite (of_nat n)"
  by (simp add: round_double_def)

lemma Number_digits:
  "s \<noteq> [] \<Longrightarrow> list_all is_digit s \<Longrightarrow> Number other s = round_double (decimal s)"
  by (simp add: Number_def)

lemma num_less_irrefl: "\<not> num_less x x"
  by (cases x) auto

lemma num_less_asym: "num_less x y \<Longrightarrow> \<not> num_less y x"
  by (cases x; cases y) auto

lemma num_less_total: "x \<noteq> NaN \<Longrightarrow> y \<noteq> NaN \<Longrightarrow> num_less x y \<or> x = y \<or> num_less y x"
  by (cases x; cases y) auto

lemma compare_from_three:
  "compare_from [x1, x2, x3] [y1, y2, y3] 0 =
     (if num_less y1 x1 then 1 else if num_less x1 y1 then - 1
      else if num_less y2 x2 then 1 else if num_less x2 y2 then - 1
      else if num_less y3 x3 then 1 else if num_less x3 y3 then - 1 else 0)"
  by (simp add: js_gt_def js_lt_def idx_def)

lemma version_parts:
  assumes "versionPattern_test v"
  shows "\<exists>a b c. split_str CHR ''.'' v = [a, b, c] \<and>
    map (Number other) (split_str CHR ''.'' v) =
       [round_double (decimal a), round_double (decimal b), round_double (decimal c)]"
proof -
  from versionPattern_shape [OF assms] obtain a b c where
    v: "v = a @ CHR ''.'' # b @ CHR ''.'' # c" and
    d: "a \<noteq> []" "list_all is_digit a" "b \<noteq> []" "list_all is_digit b" "c \<noteq> []" "list_all is_digit c"
    by blast
  have s: "split_str CHR ''.'' v = [a, b, c]"
    unfolding v using d by (simp add: split_version)
  show ?thesis
    by (rule exI [of _ a], rule exI [of _ b], rule exI [of _ c]) (simp add: s Number_digits d)
qed

lemma compareVersions_antisym_aux:
  assumes "versionPattern_test a" "versionPattern_test b"
  shows "compareVersions other a b = - compareVersions other b a"
proof -
  from version_parts [OF assms(1), of other] obtain sa1 sa2 sa3 where
    pa: "map (Number other) (split_str CHR ''.'' a) =
      [round_double (decimal sa1), round_double (decimal sa2), round_double (decimal sa3)]"
    by (elim exE conjE)
  from version_parts [OF assms(2), of other] obtain sb1 sb2 sb3 where
    pb: "map (Number other) (split_str CHR ''.'' b) =
      [round_double (decimal sb1), round_double (decimal sb2), round_double (decimal sb3)]"
    by (elim exE conjE)
  have t: "\<And>m n. num_less (round_double m) (round_double n) \<or> round_double m = round_double n
      \<or> num_less (round_double n) (round_double m)"
    by (rule num_less_total) (rule round_double_not_NaN)+
  show ?thesis
    unfolding compareVersions_def Let_def pa pb compare_from_three
    using t [of "decimal sa1" "decimal sb1"] t [of "decimal sa2" "decimal sb2"] t [of "decimal sa3" "decimal sb3"]
    by (auto simp: num_less_irrefl dest: num_less_asym)
qed


lemma compare_from_unfold:
  "compare_from p1 p2 0 =
     (if js_gt (idx p1 0) (idx p2 0) then 1 else if js_lt (idx p1 0) (idx p2 0) then - 1
      else if js_gt (idx p1 1) (idx p2 1) then 1 else if js_lt (idx p1 1) (idx p2 1) then - 1
      else if js_gt (idx p1 2) (idx p2 2) then 1 else if js_lt (idx p1 2) (idx p2 2) then - 1
      else 0)"
  by (simp add: numeral_2_eq_2 numeral_3_eq_3)

lemma num_less_NaN_right: "\<not> num_less x NaN"
  by (cases x) auto

lemma undecided_position:
  "missing_or_NaN a \<or> missing_or_NaN b \<or> a = b \<Longrightarrow> \<not> js_gt a b \<and> \<not> js_lt a b"
  by (auto simp: missing_or_NaN_def js_gt_def js_lt_def num_less_irrefl num_less_NaN_right)

lemma num_less_key: "x \<noteq> NaN \<Longrightarrow> y \<noteq> NaN \<Longrightarrow> num_less x y = (num_key x < num_key y)"
  by (cases x; cases y) auto

lemma compare_from_key:
  assumes "x1 \<noteq> NaN" "x2 \<noteq> NaN" "x3 \<noteq> NaN" "y1 \<noteq> NaN" "y2 \<noteq> NaN" "y3 \<noteq> NaN"
  shows "compare_from [x1, x2, x3] [y1, y2, y3] 0 =
    (if (num_key y1, num_key y2, num_key y3) < (num_key x1, num_key x2, num_key x3) then 1
     else if (num_key x1, num_key x2, num_key x3) < (num_key y1, num_key y2, num_key y3) then - 1
     else 0)"
  unfolding compare_from_three using assms
  by (simp add: num_less_key del: num_key.simps)

lemma num_less_exact: "num_less (Finite (of_nat m)) (Finite (of_nat n)) = (m < n)"
  by simp

lemma compareVersions_exact:
  assumes "versionPattern_test v1" "versionPattern_test v2"
    and "\<forall>n \<in> set (components v1 @ components v2). n < 2 ^ 53"
  shows "length (components v1) = 3 \<and> length (components v2) = 3 \<and>
         compareVersions other v1 v2 = first_difference (components v1) (components v2) \<and>
         (compareVersions other v1 v2 = 0 \<longleftrightarrow> components v1 = components v2)"
proof -
  from version_parts [OF assms(1), of other] obtain a1 a2 a3 where
    sa: "split_str CHR ''.'' v1 = [a1, a2, a3]" and
    pa: "map (Number other) (split_str CHR ''.'' v1) =
      [round_double (decimal a1), round_double (decimal a2), round_double (decimal a3)]"
    by (elim exE conjE)
  from version_parts [OF assms(2), of other] obtain b1 b2 b3 where
    sb: "split_str CHR ''.'' v2 = [b1, b2, b3]" and
    pb: "map (Number other) (split_str CHR ''.'' v2) =
      [round_double (decimal b1), round_double (decimal b2), round_double (decimal b3)]"
    by (elim exE conjE)
  have ca: "components v1 = [decimal a1, decimal a2, decimal a3]"
    and cb: "components v2 = [decimal b1, decimal b2, decimal b3]"
    by (simp_all add: components_def sa sb)
  from assms(3) have r:
    "round_double (decimal a1) = Finite (of_nat (decimal a1))"
    "round_double (decimal a2) = Finite (of_nat (decimal a2))"
    "round_double (decimal a3) = Finite (of_nat (decimal a3))"
    "round_double (decimal b1) = Finite (of_nat (decimal b1))"
    "round_double (decimal b2) = Finite (of_nat (decimal b2))"
    "round_double (decimal b3) = Finite (of_nat (decimal b3))"
    by (simp_all add: ca cb round_double_exact)
  have c: "compareVersions other v1 v2 = first_difference (components v1) (components v2)"
    unfolding compareVersions_def Let_def pa pb r compare_from_three num_less_exact ca cb
    by simp
  show ?thesis
    unfolding c unfolding ca cb by auto
qed

lemma position_result:
  "(if js_gt p q then 1 else if js_lt p q then - 1 else (r :: int)) =
     (if both_numbers p q \<and> p \<noteq> q
      then (if num_less (ToNumber q) (ToNumber p) then 1 else - 1)
      else r)"
proof (cases "both_numbers p q")
  case True
  then obtain x y where p: "p = Some x" "x \<noteq> NaN" and q: "q = Some y" "y \<noteq> NaN"
    by (cases p; cases q) (auto simp: both_numbers_def missing_or_NaN_def)
  from True have "both_numbers (Some x) (Some y)" by (simp add: p q)
  with num_less_total [OF p(2) q(2)] show ?thesis
    by (auto simp: p q js_gt_def js_lt_def num_less_irrefl dest: num_less_asym)
next
  case False
  then have "missing_or_NaN p \<or> missing_or_NaN q \<or> p = q" by (auto simp: both_numbers_def)
  from undecided_position [OF this] False show ?thesis by simp
qed

lemma compareVersions_range: "compareVersions other v1 v2 \<in> {- 1, 0, 1}"
  unfolding compareVersions_def Let_def compare_from_unfold by simp

lemmas version_eval =
  compareVersions_def Number_def is_digit_def decimal_def digit_val_def round_double_def
  js_gt_def js_lt_def idx_def only_digits_def components_def part_def missing_or_NaN_def
  both_numbers_def positions_def compute_floorlog

subsection \<open>Claims about \<^verbatim>\<open>compareVersions\<close>\<close>

text \<open>
  C7, as the code has it. For two version strings that match the pattern and whose
  components are all below \<open>2 ^ 53\<close>, \<^verbatim>\<open>compareVersions\<close> splits each into exactly three
  components and returns the result of comparing them as integers from left to right,
  the first difference deciding; it returns 0 exactly when the three components are
  equal. (\<^verbatim>\<open>Number\<close> makes a double of each component, so the bound is needed: see the
  counterexample.)
\<close>

theorem compareVersions_components:
  assumes "versionPattern_test v1" "versionPattern_test v2"
    and "\<forall>n \<in> set (components v1 @ components v2). n < 2 ^ 53"
  shows "length (components v1) = 3 \<and> length (components v2) = 3 \<and>
         compareVersions other v1 v2 = first_difference (components v1) (components v2) \<and>
         (compareVersions other v1 v2 = 0 \<longleftrightarrow> components v1 = components v2)"
  using assms by (rule compareVersions_exact)

theorem compareVersions_components_witness:
  "versionPattern_test ''1.2.3'' \<and> versionPattern_test ''1.10.0'' \<and>
   components ''1.2.3'' = [1, 2, 3] \<and> components ''1.10.0'' = [1, 10, 0] \<and>
   compareVersions only_digits ''1.2.3'' ''1.10.0'' = - 1 \<and>
   compareVersions only_digits ''1.2.3'' ''1.10.0'' = first_difference [1, 2, 3] [1, 10, 0]"
proof -
  have a: "versionPattern_test ''1.2.3''" by code_simp
  have b: "versionPattern_test ''1.10.0''" by code_simp
  have ca: "components ''1.2.3'' = [1, 2, 3]" by (simp add: version_eval)
  have cb: "components ''1.10.0'' = [1, 10, 0]" by (simp add: version_eval)
  have h: "\<forall>n \<in> set (components ''1.2.3'' @ components ''1.10.0''). n < 2 ^ 53"
    by (simp add: ca cb)
  from compareVersions_components [OF a b h, of only_digits] a b show ?thesis
    by (simp add: ca cb)
qed

text \<open>
  C7 as the specification states it, for every pair of matching strings, fails: the
  components \<open>2 ^ 53 + 1\<close> and \<open>2 ^ 53\<close> are different integers and the same double, so
  the comparator answers "equal".
\<close>

theorem compareVersions_rounding_counterexample:
  "versionPattern_test ''9007199254740993.0.0'' \<and> versionPattern_test ''9007199254740992.0.0'' \<and>
   components ''9007199254740993.0.0'' = [9007199254740993, 0, 0] \<and>
   components ''9007199254740992.0.0'' = [9007199254740992, 0, 0] \<and>
   compareVersions only_digits ''9007199254740993.0.0'' ''9007199254740992.0.0'' = 0"
proof -
  have a: "versionPattern_test ''9007199254740993.0.0''" by code_simp
  have b: "versionPattern_test ''9007199254740992.0.0''" by code_simp
  have ca: "components ''9007199254740993.0.0'' = [9007199254740993, 0, 0]"
    by (simp add: version_eval)
  have cb: "components ''9007199254740992.0.0'' = [9007199254740992, 0, 0]"
    by (simp add: version_eval)
  have c: "compareVersions only_digits ''9007199254740993.0.0'' ''9007199254740992.0.0'' = 0"
    by (simp add: version_eval)
  from a b ca cb c show ?thesis by blast
qed

text \<open>
  C8, as the code has it. On the strings that match the version pattern the comparator
  returns -1, 0 or 1, is antisymmetric, \<^verbatim>\<open>compare(a, b) == -compare(b, a)\<close>, and
  transitive: \<^verbatim>\<open>compare(a, b) > 0\<close> and \<^verbatim>\<open>compare(b, c) > 0\<close> give
  \<^verbatim>\<open>compare(a, c) > 0\<close>, and likewise for \<^verbatim>\<open>== 0\<close>. It is total, and so a strict
  total order of the versions as
  triples of numbers, where the components are below \<open>2 ^ 53\<close>: there
  \<^verbatim>\<open>compare(a, b) == 0\<close> exactly when the three components of \<open>a\<close> and \<open>b\<close> are
  equal, so of two versions that differ one is the greater.
\<close>

theorem compareVersions_order:
  assumes "versionPattern_test a" "versionPattern_test b" "versionPattern_test c"
  shows "compareVersions other a b \<in> {- 1, 0, 1} \<and>
         compareVersions other a b = - compareVersions other b a \<and>
         (0 < compareVersions other a b \<and> 0 < compareVersions other b c
            \<longrightarrow> 0 < compareVersions other a c) \<and>
         (compareVersions other a b = 0 \<and> compareVersions other b c = 0
            \<longrightarrow> compareVersions other a c = 0) \<and>
         ((\<forall>n \<in> set (components a @ components b). n < 2 ^ 53) \<longrightarrow>
            (compareVersions other a b = 0 \<longleftrightarrow> components a = components b))"
proof -
  from version_parts [OF assms(1), of other] obtain sa1 sa2 sa3 where
    pa: "map (Number other) (split_str CHR ''.'' a) =
      [round_double (decimal sa1), round_double (decimal sa2), round_double (decimal sa3)]"
    by (elim exE conjE)
  from version_parts [OF assms(2), of other] obtain sb1 sb2 sb3 where
    pb: "map (Number other) (split_str CHR ''.'' b) =
      [round_double (decimal sb1), round_double (decimal sb2), round_double (decimal sb3)]"
    by (elim exE conjE)
  from version_parts [OF assms(3), of other] obtain sc1 sc2 sc3 where
    pc: "map (Number other) (split_str CHR ''.'' c) =
      [round_double (decimal sc1), round_double (decimal sc2), round_double (decimal sc3)]"
    by (elim exE conjE)
  note k = compare_from_key [OF round_double_not_NaN round_double_not_NaN round_double_not_NaN
      round_double_not_NaN round_double_not_NaN round_double_not_NaN]
  have tr: "0 < compareVersions other a c"
    if "0 < compareVersions other a b" "0 < compareVersions other b c"
    using that unfolding compareVersions_def Let_def pa pb pc k
    by (auto split: if_splits)
  have eq: "compareVersions other a c = 0"
    if "compareVersions other a b = 0" "compareVersions other b c = 0"
    using that unfolding compareVersions_def Let_def pa pb pc k
    by (auto split: if_splits)
  have tot: "compareVersions other a b = 0 \<longleftrightarrow> components a = components b"
    if "\<forall>n \<in> set (components a @ components b). n < 2 ^ 53"
    using compareVersions_exact [OF assms(1,2) that, of other] by blast
  from tr eq tot compareVersions_antisym_aux [OF assms(1,2), of other]
    compareVersions_range [of other a b]
  show ?thesis by blast
qed

theorem compareVersions_order_witness:
  "versionPattern_test ''2.0.0'' \<and> versionPattern_test ''1.5.0'' \<and> versionPattern_test ''1.0.0'' \<and>
   compareVersions only_digits ''2.0.0'' ''1.5.0'' = 1 \<and>
   compareVersions only_digits ''1.5.0'' ''2.0.0'' = - 1 \<and>
   0 < compareVersions only_digits ''1.5.0'' ''1.0.0'' \<and>
   0 < compareVersions only_digits ''2.0.0'' ''1.0.0'' \<and>
   components ''2.0.0'' \<noteq> components ''1.5.0'' \<and>
   compareVersions only_digits ''2.0.0'' ''1.5.0'' \<noteq> 0"
proof -
  have a: "versionPattern_test ''2.0.0''" by code_simp
  have b: "versionPattern_test ''1.5.0''" by code_simp
  have c: "versionPattern_test ''1.0.0''" by code_simp
  have ab: "compareVersions only_digits ''2.0.0'' ''1.5.0'' = 1" by (simp add: version_eval)
  have bc: "0 < compareVersions only_digits ''1.5.0'' ''1.0.0''" by (simp add: version_eval)
  have ca: "components ''2.0.0'' = [2, 0, 0]" by (simp add: version_eval)
  have cb: "components ''1.5.0'' = [1, 5, 0]" by (simp add: version_eval)
  have h: "\<forall>n \<in> set (components ''2.0.0'' @ components ''1.5.0''). n < 2 ^ 53"
    by (simp add: ca cb)
  from compareVersions_order [OF a b c, of only_digits] a b c ab bc h show ?thesis
    by (simp add: ca cb)
qed

text \<open>
  C8 as stated, a strict total order on all valid version strings, fails: the versions
  \<open>1.(2 ^ 53 + 1).0\<close> and \<open>1.(2 ^ 53).0\<close> differ in their minor component, and
  neither is greater than the other.
\<close>

theorem compareVersions_not_total_counterexample:
  "versionPattern_test ''1.9007199254740993.0'' \<and> versionPattern_test ''1.9007199254740992.0'' \<and>
   components ''1.9007199254740993.0'' = [1, 9007199254740993, 0] \<and>
   components ''1.9007199254740992.0'' = [1, 9007199254740992, 0] \<and>
   compareVersions only_digits ''1.9007199254740993.0'' ''1.9007199254740992.0'' = 0 \<and>
   compareVersions only_digits ''1.9007199254740992.0'' ''1.9007199254740993.0'' = 0"
proof -
  have a: "versionPattern_test ''1.9007199254740993.0''" by code_simp
  have b: "versionPattern_test ''1.9007199254740992.0''" by code_simp
  have ca: "components ''1.9007199254740993.0'' = [1, 9007199254740993, 0]"
    by (simp add: version_eval)
  have cb: "components ''1.9007199254740992.0'' = [1, 9007199254740992, 0]"
    by (simp add: version_eval)
  have c: "compareVersions only_digits ''1.9007199254740993.0'' ''1.9007199254740992.0'' = 0"
    by (simp add: version_eval)
  have d: "compareVersions only_digits ''1.9007199254740992.0'' ''1.9007199254740993.0'' = 0"
    by (simp add: version_eval)
  from a b ca cb c d show ?thesis by blast
qed

text \<open>
  C9, as the code has it. \<^verbatim>\<open>compareVersions\<close> is total on all pairs of strings: it
  returns -1, 0 or 1 and throws nothing. At a position where a component is missing or
  is \<^verbatim>\<open>NaN\<close> on either side, neither \<^verbatim>\<open>>\<close> nor \<^verbatim>\<open><\<close> holds, so the position decides
  nothing: the result is the one given by the first of the three positions at which
  both components are numbers and differ (1 when the first string's component is the
  greater, -1 when it is the smaller), and 0 when there is no such position, as for
  \<^verbatim>\<open>"1.0"\<close> against \<^verbatim>\<open>"1.0.0"\<close>.
\<close>

theorem compareVersions_total:
  "compareVersions other v1 v2 \<in> {- 1, 0, 1} \<and>
   compareVersions other v1 v2 = first_decided (positions other v1 v2) \<and>
   (missing_or_NaN (part other v1 i) \<or> missing_or_NaN (part other v2 i) \<longrightarrow>
      \<not> js_gt (part other v1 i) (part other v2 i) \<and>
      \<not> js_lt (part other v1 i) (part other v2 i)) \<and>
   ((\<forall>i < 3. missing_or_NaN (part other v1 i) \<or> missing_or_NaN (part other v2 i)
        \<or> part other v1 i = part other v2 i)
      \<longrightarrow> compareVersions other v1 v2 = 0)"
proof -
  have d: "compareVersions other v1 v2 = first_decided (positions other v1 v2)"
    unfolding compareVersions_def Let_def compare_from_unfold position_result
    by (simp add: positions_def part_def)
  have "\<not> js_gt (part other v1 i) (part other v2 i) \<and>
      \<not> js_lt (part other v1 i) (part other v2 i)"
    if "missing_or_NaN (part other v1 i) \<or> missing_or_NaN (part other v2 i)"
    using that by (intro undecided_position) blast
  moreover have "compareVersions other v1 v2 = 0"
    if h: "\<forall>i < 3. missing_or_NaN (part other v1 i) \<or> missing_or_NaN (part other v2 i)
        \<or> part other v1 i = part other v2 i"
  proof -
    have "\<not> js_gt (part other v1 i) (part other v2 i) \<and> \<not> js_lt (part other v1 i) (part other v2 i)"
      if "i < 3" for i
      using h that by (intro undecided_position) blast
    from this [of 0] this [of 1] this [of 2] show ?thesis
      unfolding compareVersions_def Let_def compare_from_unfold part_def by simp
  qed
  ultimately show ?thesis using d compareVersions_range [of other v1 v2] by blast
qed

theorem compareVersions_total_witness:
  "length (split_str CHR ''.'' ''1.0'') = 2 \<and>
   missing_or_NaN (part only_digits ''1.0'' 2) \<and>
   \<not> js_gt (part only_digits ''1.0'' 2) (part only_digits ''1.0.0'' 2) \<and>
   \<not> js_lt (part only_digits ''1.0'' 2) (part only_digits ''1.0.0'' 2) \<and>
   compareVersions only_digits ''1.0'' ''1.0.0'' = 0 \<and>
   first_decided (positions only_digits ''1.0'' ''1.0.0'') = 0 \<and>
   positions only_digits ''1.x.5'' ''1.y.4'' =
     [(Some (Finite 1), Some (Finite 1)), (Some NaN, Some NaN), (Some (Finite 5), Some (Finite 4))] \<and>
   compareVersions only_digits ''1.x.5'' ''1.y.4'' = 1"
proof -
  have m: "missing_or_NaN (part only_digits ''1.0'' 2)"
    by (simp add: version_eval)
  have h: "\<forall>i < 3. missing_or_NaN (part only_digits ''1.0'' i)
      \<or> missing_or_NaN (part only_digits ''1.0.0'' i)
      \<or> part only_digits ''1.0'' i = part only_digits ''1.0.0'' i"
    by (simp add: version_eval numeral_3_eq_3 less_Suc_eq)
  have p: "positions only_digits ''1.x.5'' ''1.y.4'' =
     [(Some (Finite 1), Some (Finite 1)), (Some NaN, Some NaN), (Some (Finite 5), Some (Finite 4))]"
    by (simp add: version_eval)
  from compareVersions_total [of only_digits "''1.0''" "''1.0.0''" 2] m h
  have 1: "\<not> js_gt (part only_digits ''1.0'' 2) (part only_digits ''1.0.0'' 2)"
    "\<not> js_lt (part only_digits ''1.0'' 2) (part only_digits ''1.0.0'' 2)"
    "compareVersions only_digits ''1.0'' ''1.0.0'' = 0"
    "first_decided (positions only_digits ''1.0'' ''1.0.0'') = 0"
    by simp_all
  from compareVersions_total [of only_digits "''1.x.5''" "''1.y.4''" 0]
  have 2: "compareVersions only_digits ''1.x.5'' ''1.y.4'' = 1"
    by (simp add: p both_numbers_def missing_or_NaN_def)
  from m 1 2 p show ?thesis by simp
qed

text \<open>
  C9 as stated says that every pair with a string of fewer than three parts compares as
  equal. It does not: the components that are present still decide, and \<^verbatim>\<open>"2.0"\<close>
  against \<^verbatim>\<open>"1.0.0"\<close> gives 1.
\<close>

theorem compareVersions_short_counterexample:
  "length (split_str CHR ''.'' ''2.0'') = 2 \<and>
   compareVersions only_digits ''2.0'' ''1.0.0'' = 1"
  by (simp add: version_eval)

section \<open>The validator\<close>

subsection \<open>Auxiliary facts\<close>

lemma versionPattern_test_Nil: "\<not> versionPattern_test []"
  by (simp add: versionPattern_test_def digits1_def)

lemma sample_valid: "validateMethodology (sample i v) = Inr () \<longleftrightarrow> i \<noteq> [] \<and> versionPattern_test v"
  by (auto simp: validateMethodology_def sample_def required_def check_author_def check_version_def
      versionPattern_test_any_def versionPattern_test_Nil split: sum.splits bool.splits)

lemma sample_validates:
  "i \<noteq> [] \<Longrightarrow> versionPattern_test v \<Longrightarrow> validateMethodology (sample i v) = Inr ()"
  by (simp add: sample_valid)

lemma validate_obj: "validateMethodology m = Inr () \<Longrightarrow> \<exists>kvs. m = JObj kvs"
  by (cases m) (auto simp: validateMethodology_def required_def split: sum.splits)

lemma get_own: "x \<noteq> JNull \<Longrightarrow> get x f = Inr (own x f)"
  by (cases x) (simp_all add: own_def)

lemma check_required_find:
  "m \<noteq> JNull \<Longrightarrow>
   check_required m fs =
     (case find (\<lambda>f. \<not> truthy (own m f)) fs of
        Some f \<Rightarrow> Inl (Error (''Missing required field: '' @ f))
      | None \<Rightarrow> Inr ())"
  by (induction fs) (auto simp: get_own)

lemma some_falsy_has_all: "x \<noteq> JNull \<Longrightarrow> some_falsy x fs = Inr (\<not> has_all x fs)"
  by (induction fs) (auto simp: get_own has_all_def)

lemma check_stages_has_all:
  "JNull \<notin> set xs \<Longrightarrow>
   check_stages xs =
     (if list_all (\<lambda>s. has_all s [''name'', ''description'', ''guidance'']) xs then Inr ()
      else Inl (Error ''Each stage must have name, description, and guidance''))"
proof (induction xs)
  case (Cons x xs)
  then have "x \<noteq> JNull" "JNull \<notin> set xs" by auto
  with Cons.IH show ?case
    by (simp add: some_falsy_has_all del: some_falsy.simps split: bool.splits)
qed simp

lemma plain_version:
  "(case Some v of Some (JArr xs) \<Rightarrow> False | Some (JObj kvs) \<Rightarrow> map_of kvs ''toString'' = None
      | _ \<Rightarrow> True) \<Longrightarrow>
   \<not> String_throws v \<and>
   String_matches v = (case Some v of Some (JStr s) \<Rightarrow> versionPattern_test s | _ \<Rightarrow> False)"
  by (cases v) simp_all

lemma find_required_None:
  "find (\<lambda>f. \<not> truthy (own m f)) required = None \<Longrightarrow>
   truthy (own m ''stages'') \<and> truthy (own m ''author'') \<and> truthy (own m ''version'')"
  by (simp add: required_def split: if_splits)

subsection \<open>The validator and the five rules\<close>

text \<open>
  On a plain candidate \<^verbatim>\<open>validateMethodology\<close> returns normally when the five rules
  hold and otherwise throws the error that names the first rule that fails.
\<close>

lemma validateMethodology_names_first_rule:
  assumes "plain m"
  shows "validateMethodology m =
    (case first_failing_rule m of None \<Rightarrow> Inr () | Some r \<Rightarrow> Inl (rule_error r))"
proof (cases "find (\<lambda>f. \<not> truthy (own m f)) required")
  case (Some f)
  with assms show ?thesis
    by (simp add: validateMethodology_def first_failing_rule_def plain_def check_required_find)
next
  case None
  from assms have m: "m \<noteq> JNull" by (simp add: plain_def)
  note t = find_required_None [OF None]
  from t obtain a where a1: "own m ''author'' = Some a" by (cases "own m ''author''") auto
  from t obtain v where v: "own m ''version'' = Some v" by (cases "own m ''version''") auto
  from t a1 have "a \<noteq> JNull" by auto
  note a = a1 this
  from assms v have "case Some v of Some (JArr xs) \<Rightarrow> False
      | Some (JObj kvs) \<Rightarrow> map_of kvs ''toString'' = None | _ \<Rightarrow> True"
    by (simp add: plain_def)
  from plain_version [OF this] have nt: "\<not> String_throws v"
    and sm: "String_matches v = (case Some v of Some (JStr s) \<Rightarrow> versionPattern_test s | _ \<Rightarrow> False)"
    by simp_all
  show ?thesis
  proof (cases "\<exists>xs. own m ''stages'' = Some (JArr xs)")
    case True
    then obtain xs where xs: "own m ''stages'' = Some (JArr xs)" by blast
    then have so: "stages_of m = xs" by (simp add: stages_of_def)
    with assms have nn: "JNull \<notin> set xs" by (simp add: plain_def)
    show ?thesis
      by (simp add: validateMethodology_def first_failing_rule_def None check_required_find [OF m]
          get_own [OF m] xs so check_stages_has_all [OF nn] a v check_author_def
          some_falsy_has_all check_version_def versionPattern_test_any_def nt sm
          del: some_falsy.simps split: bool.splits)
  next
    case False
    then have so: "stages_of m = []"
      by (auto simp: stages_of_def split: option.splits json.splits)
    from False show ?thesis
      by (simp add: validateMethodology_def first_failing_rule_def None check_required_find [OF m]
          get_own [OF m] so split: option.splits json.splits)
  qed
qed

text \<open>
  A candidate for which the five rules hold is plain, so it is accepted. The converse
  fails: \<^verbatim>\<open>versionPattern.test\<close> converts its argument to a string, and a version
  that is the array \<^verbatim>\<open>["1.0.0"]\<close> passes the test although it is no version string.
\<close>

lemma has_all_not_null: "has_all x (f # fs) \<Longrightarrow> x \<noteq> JNull"
  by (auto simp: has_all_def own_def)

lemma passes_plain:
  assumes "first_failing_rule m = None"
  shows "plain m"
proof -
  from assms have f: "find (\<lambda>f. \<not> truthy (own m f)) required = None"
    and s: "list_all (\<lambda>s. has_all s [''name'', ''description'', ''guidance'']) (stages_of m)"
    and v: "case own m ''version'' of Some (JStr s) \<Rightarrow> versionPattern_test s | _ \<Rightarrow> False"
    by (auto simp: first_failing_rule_def split: option.splits if_splits)
  from f have "m \<noteq> JNull" by (auto simp: required_def own_def)
  moreover from s have "JNull \<notin> set (stages_of m)"
    by (auto simp: list_all_iff dest: has_all_not_null)
  moreover from v have "case own m ''version'' of Some (JArr xs) \<Rightarrow> False
      | Some (JObj kvs) \<Rightarrow> map_of kvs ''toString'' = None | _ \<Rightarrow> True"
    by (auto split: option.splits json.splits)
  ultimately show ?thesis by (simp add: plain_def)
qed

lemma rules_accept: "first_failing_rule m = None \<Longrightarrow> validateMethodology m = Inr ()"
  using validateMethodology_names_first_rule [OF passes_plain] by simp


text \<open>A candidate that is rejected is not written.\<close>

lemma rejected_not_persisted:
  assumes "validateMethodology m = Inl e" "content env p = FileData (Some m)"
  shows "syncMethodologyFile other env p (w, out) = (Inl e, w\<lparr>requests := requests w @ [p]\<rparr>, out)"
  using assms by (simp add: syncMethodologyFile_def process_file_def)

text \<open>The four rejections the specification lists, each with the error of its rule.\<close>

lemma validation_rejects:
  "validateMethodology
     (JObj [(''id'', JStr ''gt-charmaz''), (''name'', JStr ''Grounded Theory''),
            (''version'', JStr ''1.0.0''),
            (''author'', JObj [(''name'', JStr ''K. Charmaz''), (''email'', JStr ''kc@example.org'')]),
            (''category'', JStr ''theory-building''), (''description'', JStr ''Constructivist GT'')])
     = Inl (Error ''Missing required field: stages'')"
  "validateMethodology
     (JObj [(''id'', JStr ''gt-charmaz''), (''name'', JStr ''Grounded Theory''),
            (''version'', JStr ''1.0.0''),
            (''author'', JObj [(''name'', JStr ''K. Charmaz''), (''email'', JStr ''kc@example.org'')]),
            (''category'', JStr ''theory-building''), (''description'', JStr ''Constructivist GT''),
            (''stages'', JArr [JObj [(''name'', JStr ''Initial coding''),
                                     (''guidance'', JStr ''Stay close to the data'')]])])
     = Inl (Error ''Each stage must have name, description, and guidance'')"
  "validateMethodology
     (JObj [(''id'', JStr ''gt-charmaz''), (''name'', JStr ''Grounded Theory''),
            (''version'', JStr ''1.0.0''),
            (''author'', JObj [(''name'', JStr ''K. Charmaz'')]),
            (''category'', JStr ''theory-building''), (''description'', JStr ''Constructivist GT''),
            (''stages'', JArr [JObj [(''name'', JStr ''Initial coding''),
                                     (''description'', JStr ''Line by line''),
                                     (''guidance'', JStr ''Stay close to the data'')]])])
     = Inl (Error ''Author must have name and email'')"
  "validateMethodology (sample ''gt-charmaz'' ''1.0'')
     = Inl (Error ''Version must follow semver format (e.g., 1.0.0)'')"
proof -
  have "\<not> versionPattern_test ''1.0''" by code_simp
  then show "validateMethodology (sample ''gt-charmaz'' ''1.0'')
     = Inl (Error ''Version must follow semver format (e.g., 1.0.0)'')"
    by (simp add: validateMethodology_def sample_def required_def check_author_def
        check_version_def versionPattern_test_any_def)
qed (simp_all add: validateMethodology_def required_def check_author_def)

text \<open>
  C4. The specification has every rejected candidate rejected with the error that names
  the first failing rule. A stage that is \<^verbatim>\<open>null\<close> fails the third rule, but reading
  \<^verbatim>\<open>stage.name\<close> throws a \<^verbatim>\<open>TypeError\<close> before the rule's error is raised; a candidate
  that is \<^verbatim>\<open>null\<close> itself fails the first rule and meets the same \<^verbatim>\<open>TypeError\<close> at
  \<^verbatim>\<open>methodology[field]\<close>. Both are still rejected.
\<close>

theorem null_stage_TypeError:
  "first_failing_rule
     (JObj [(''id'', JStr ''gt-charmaz''), (''name'', JStr ''Grounded Theory''),
            (''version'', JStr ''1.0.0''),
            (''author'', JObj [(''name'', JStr ''K. Charmaz''), (''email'', JStr ''kc@example.org'')]),
            (''category'', JStr ''theory-building''), (''description'', JStr ''Constructivist GT''),
            (''stages'', JArr [JNull])]) = Some StageFields \<and>
   validateMethodology
     (JObj [(''id'', JStr ''gt-charmaz''), (''name'', JStr ''Grounded Theory''),
            (''version'', JStr ''1.0.0''),
            (''author'', JObj [(''name'', JStr ''K. Charmaz''), (''email'', JStr ''kc@example.org'')]),
            (''category'', JStr ''theory-building''), (''description'', JStr ''Constructivist GT''),
            (''stages'', JArr [JNull])]) = Inl TypeError \<and>
   first_failing_rule JNull = Some (MandatoryField ''id'') \<and>
   validateMethodology JNull = Inl TypeError"
  by (simp add: validateMethodology_def first_failing_rule_def required_def own_def stages_of_def
      has_all_def)

section \<open>One file\<close>

subsection \<open>Auxiliary facts\<close>

lemma process_file_decide:
  "process_file other fd p (w, out) =
     (case decide other fd (files w (basename p)) of
        Fail e \<Rightarrow> (Inl e, w, out)
      | Skip \<Rightarrow> (Inr (), w, out)
      | Write m u \<Rightarrow> persist (basename p) m u (w, out))"
  by (simp add: process_file_def decide_def Let_def
      split: fetched.splits option.splits sum.splits local_file.splits)


lemma decide_Write_valid:
  "decide other fd lf = Write m u \<Longrightarrow> fd = FileData (Some m) \<and> validateMethodology m = Inr ()"
  by (auto simp: decide_def split: fetched.splits option.splits sum.splits local_file.splits if_splits)

lemma valid_id: "validateMethodology m = Inr () \<Longrightarrow> get m ''id'' = Inr (id_of m)"
  by (auto simp: id_of_def dest!: validate_obj)

lemma persist_valid:
  "validateMethodology m = Inr () \<Longrightarrow>
   persist p m u (w, out) =
     (Inr (), w\<lparr>files := (files w)(p \<mapsto> Parsed (stored m))\<rparr>,
      if u then out\<lparr>updated := updated out @ [id_of m]\<rparr> else out\<lparr>added := added out @ [id_of m]\<rparr>)"
  by (simp add: persist_def valid_id)

lemma sync_entry_skip: "\<not> is_methodology_file file \<Longrightarrow> sync_entry other env file st = st"
  by (simp add: sync_entry_def)

lemma sync_entry_cases:
  assumes "is_methodology_file file"
  shows "sync_entry other env file (w, out) =
    (case decide other (content env (ent_path file)) (files w (basename (ent_path file))) of
       Fail e \<Rightarrow> (w\<lparr>requests := requests w @ [ent_path file]\<rparr>,
                  out\<lparr>errors := errors out @ [(ent_name file, e)]\<rparr>)
     | Skip \<Rightarrow> (w\<lparr>requests := requests w @ [ent_path file]\<rparr>, out)
     | Write m u \<Rightarrow>
         (w\<lparr>requests := requests w @ [ent_path file],
            files := (files w)(basename (ent_path file) \<mapsto> Parsed (stored m))\<rparr>,
          if u then out\<lparr>updated := updated out @ [id_of m]\<rparr>
          else out\<lparr>added := added out @ [id_of m]\<rparr>))"
proof (cases "decide other (content env (ent_path file)) (files w (basename (ent_path file)))")
  case (Write m u)
  from decide_Write_valid [OF Write] have "validateMethodology m = Inr ()" by simp
  with Write assms show ?thesis
    by (simp add: sync_entry_def syncMethodologyFile_def process_file_decide catch_file_error_def
        persist_valid)
qed (use assms in \<open>simp_all add: sync_entry_def syncMethodologyFile_def process_file_decide
        catch_file_error_def\<close>)

lemma sync_entries_append:
  "sync_entries other env (xs @ ys) st = sync_entries other env ys (sync_entries other env xs st)"
  by (induction xs arbitrary: st) simp_all

lemma sync_entry_failure:
  assumes "is_methodology_file file" "file_failure env file = Some e"
  shows "sync_entry other env file st = record_failure file e st"
proof -
  obtain w out where st: "st = (w, out)" by (cases st)
  from assms(2) have "decide other (content env (ent_path file)) lf = Fail e" for lf
    by (auto simp: file_failure_def decide_def split: fetched.splits option.splits sum.splits)
  then show ?thesis
    by (simp add: st sync_entry_cases [OF assms(1)] record_failure_def)
qed


lemma id_of_sample: "id_of (sample i v) = Some (JStr i)"
  by (simp add: id_of_def sample_def)

lemma version_of_sample: "get (sample i v) ''version'' = Inr (Some (JStr v))"
  by (simp add: sample_def)

lemma stored_sample: "stored (sample i v) = sample i v"
  by (simp add: sample_def)


lemmas sync_eval =
  is_methodology_file_def id_of_sample version_of_sample stored_sample sample_validates
  endsWith_def json_entry_def repository_def fresh_def no_outcome_def decide_def
  compareVersions_call_def basename_def


lemma sync_entry_errors_mono:
  "set (errors (snd st)) \<subseteq> set (errors (snd (sync_entry other env file st)))"
proof (cases "is_methodology_file file")
  case True
  obtain w out where st: "st = (w, out)" by (cases st)
  show ?thesis
    by (cases "decide other (content env (ent_path file)) (files w (basename (ent_path file)))")
       (auto simp: st sync_entry_cases [OF True])
qed (simp add: sync_entry_skip)

lemma sync_entries_errors_mono:
  "set (errors (snd st)) \<subseteq> set (errors (snd (sync_entries other env contents st)))"
proof (induction contents arbitrary: st)
  case (Cons f fs)
  from sync_entry_errors_mono Cons.IH show ?case
    by (simp only: sync_entries.simps) blast
qed simp

lemma sync_entry_requests:
  "requests (fst (sync_entry other env file st)) =
     requests (fst st) @ (if is_methodology_file file then [ent_path file] else [])"
proof (cases "is_methodology_file file")
  case True
  obtain w out where st: "st = (w, out)" by (cases st)
  show ?thesis
    by (cases "decide other (content env (ent_path file)) (files w (basename (ent_path file)))")
       (auto simp: st True sync_entry_cases [OF True])
qed (simp add: sync_entry_skip)

lemma sync_entries_requests:
  "requests (fst (sync_entries other env contents st)) =
     requests (fst st) @ map ent_path (filter is_methodology_file contents)"
  by (induction contents arbitrary: st) (simp_all add: sync_entry_requests)

lemma ensure_localDir_ready:
  "localDir_exists w \<or> mkdirSync env = None \<Longrightarrow>
   ensure_localDir env w = Inr (w\<lparr>localDir_exists := True\<rparr>)"
  by (cases w) (auto simp: ensure_localDir_def)

lemma ensure_localDir_fails:
  "\<not> localDir_exists w \<Longrightarrow> mkdirSync env = Some msg \<Longrightarrow> ensure_localDir env w = Inl msg"
  by (simp add: ensure_localDir_def)

lemma run_listed_Entries:
  "listing env = Entries contents \<Longrightarrow> localDir_exists w \<or> mkdirSync env = None \<Longrightarrow>
   run_listed other env w =
     (Inr (snd (sync_entries other env contents (w\<lparr>localDir_exists := True\<rparr>, no_outcome))),
      (fst (sync_entries other env contents (w\<lparr>localDir_exists := True\<rparr>, no_outcome)))
        \<lparr>lastSync := Some (now env)\<rparr>)"
  by (simp add: run_listed_def ensure_localDir_ready split: prod.splits)

lemma run_listed_mkdir_fails:
  "listing env = Entries contents \<Longrightarrow> \<not> localDir_exists w \<Longrightarrow> mkdirSync env = Some msg \<Longrightarrow>
   run_listed other env w = (Inl (Error (''Failed to sync from GitHub: '' @ msg)), w)"
  by (simp add: run_listed_def ensure_localDir_fails)

lemma sync_entry_localDir:
  "localDir_exists (fst (sync_entry other env f st)) = localDir_exists (fst st)"
proof (cases "is_methodology_file f")
  case True
  obtain w out where st: "st = (w, out)" by (cases st)
  show ?thesis
    by (cases "decide other (content env (ent_path f)) (files w (basename (ent_path f)))")
       (auto simp: st sync_entry_cases [OF True])
qed (simp add: sync_entry_skip)

lemma sync_entries_localDir:
  "localDir_exists (fst (sync_entries other env contents st)) = localDir_exists (fst st)"
  by (induction contents arbitrary: st) (simp_all add: sync_entry_localDir)

subsection \<open>The version gate\<close>





section \<open>A run\<close>

subsection \<open>Auxiliary facts\<close>

lemma sync_entries_failure_recorded:
  assumes "f \<in> set contents" "is_methodology_file f" "file_failure env f = Some e"
  shows "(ent_name f, e) \<in> set (errors (snd (sync_entries other env contents st)))"
proof -
  from assms(1) obtain before rest where c: "contents = before @ f # rest"
    by (auto simp: in_set_conv_decomp)
  obtain w out where b: "sync_entries other env before st = (w, out)"
    by (cases "sync_entries other env before st")
  have "(ent_name f, e) \<in> set (errors (snd (record_failure f e (w, out))))"
    by (simp add: record_failure_def)
  with sync_entries_errors_mono [of "record_failure f e (w, out)" other env rest]
  show ?thesis
    by (auto simp: c sync_entries_append b sync_entry_failure [OF assms(2,3)])
qed

subsection \<open>The outcome of a run\<close>

text \<open>
  C2, as the code has it. A run whose listing request returns an array, and whose local
  directory exists or can be made, completes and returns \<^verbatim>\<open>{added, updated, errors}\<close>,
  and a request for a file that is rejected (not found, not authorised, rate limited)
  puts \<^verbatim>\<open>name: message\<close> on the error list. A listing request that is rejected, or
  that returns no array, ends the run, and so does a local directory that cannot be
  made: the caller of \<^verbatim>\<open>syncFromGitHub\<close>, and of \<^verbatim>\<open>forceSync\<close>, gets the exception
  \<^verbatim>\<open>Failed to sync from GitHub: message\<close>.
\<close>

theorem run_outcome:
  "(listing env = Entries contents \<and> (localDir_exists w \<or> mkdirSync env = None) \<longrightarrow>
      (\<exists>out w'. syncFromGitHub other env w = (Inr out, w') \<and>
         fst (forceSync other env w) = Inr () \<and>
         (\<forall>f msg. f \<in> set contents \<and> is_methodology_file f \<and>
              content env (ent_path f) = FetchError msg \<longrightarrow>
            (ent_name f, Error msg) \<in> set (errors out)))) \<and>
   (listing env = ListingError msg \<longrightarrow>
      fst (syncFromGitHub other env w) = Inl (Error (''Failed to sync from GitHub: '' @ msg)) \<and>
      fst (forceSync other env w) = Inl (Error (''Failed to sync from GitHub: '' @ msg))) \<and>
   (listing env = NotArray \<longrightarrow>
      fst (syncFromGitHub other env w) =
        Inl (Error (''Failed to sync from GitHub: ''
               @ ''Methodologies directory not found or not a directory'')) \<and>
      fst (forceSync other env w) =
        Inl (Error (''Failed to sync from GitHub: ''
               @ ''Methodologies directory not found or not a directory''))) \<and>
   (listing env = Entries contents \<and> \<not> localDir_exists w \<and> mkdirSync env = Some msg \<longrightarrow>
      fst (syncFromGitHub other env w) = Inl (Error (''Failed to sync from GitHub: '' @ msg)) \<and>
      fst (forceSync other env w) = Inl (Error (''Failed to sync from GitHub: '' @ msg)))"
proof -
  let ?w = "w\<lparr>requests := requests w @ [''methodologies'']\<rparr>"
  have rec: "(ent_name f, Error m) \<in> set (errors (snd (sync_entries other env contents st)))"
    if "f \<in> set contents" "is_methodology_file f" "content env (ent_path f) = FetchError m"
    for f m st
    using that by (intro sync_entries_failure_recorded) (simp_all add: file_failure_def)
  have 1: "\<exists>out w'. syncFromGitHub other env w = (Inr out, w') \<and>
         fst (forceSync other env w) = Inr () \<and>
         (\<forall>f msg. f \<in> set contents \<and> is_methodology_file f \<and>
              content env (ent_path f) = FetchError msg \<longrightarrow>
            (ent_name f, Error msg) \<in> set (errors out))"
    if l: "listing env = Entries contents" and r: "localDir_exists w \<or> mkdirSync env = None"
  proof -
    from r have "localDir_exists ?w \<or> mkdirSync env = None" by simp
    from run_listed_Entries [OF l this] rec show ?thesis
      by (simp add: syncFromGitHub_def forceSync_def)
  qed
  have 2: "fst (syncFromGitHub other env w) = Inl (Error (''Failed to sync from GitHub: '' @ msg)) \<and>
      fst (forceSync other env w) = Inl (Error (''Failed to sync from GitHub: '' @ msg))"
    if l: "listing env = Entries contents" and r: "\<not> localDir_exists w" "mkdirSync env = Some msg"
  proof -
    from r have "\<not> localDir_exists ?w" by simp
    from run_listed_mkdir_fails [OF l this r(2)] show ?thesis
      by (simp add: syncFromGitHub_def forceSync_def)
  qed
  have 3: "listing env = ListingError msg \<longrightarrow>
      fst (syncFromGitHub other env w) = Inl (Error (''Failed to sync from GitHub: '' @ msg)) \<and>
      fst (forceSync other env w) = Inl (Error (''Failed to sync from GitHub: '' @ msg))"
    by (simp add: syncFromGitHub_def forceSync_def run_listed_def)
  have 4: "listing env = NotArray \<longrightarrow>
      fst (syncFromGitHub other env w) =
        Inl (Error (''Failed to sync from GitHub: ''
               @ ''Methodologies directory not found or not a directory'')) \<and>
      fst (forceSync other env w) =
        Inl (Error (''Failed to sync from GitHub: ''
               @ ''Methodologies directory not found or not a directory''))"
    by (simp add: syncFromGitHub_def forceSync_def run_listed_def)
  from 1 2 3 4 show ?thesis by blast
qed

theorem run_outcome_witness:
  "fst (syncFromGitHub only_digits (repository [(''lost.json'', FetchError ''Not Found'')]) fresh) =
     Inr (no_outcome\<lparr>errors := [(''lost.json'', Error ''Not Found'')]\<rparr>) \<and>
   fst (forceSync only_digits (repository [(''lost.json'', FetchError ''Not Found'')]) fresh) = Inr () \<and>
   fst (forceSync only_digits
          \<lparr>listing = ListingError ''Bad credentials'', content = (\<lambda>p. NotFile), now = 1,
           mkdirSync = None\<rparr> fresh) =
     Inl (Error ''Failed to sync from GitHub: Bad credentials'') \<and>
   fst (forceSync only_digits
          \<lparr>listing = NotArray, content = (\<lambda>p. NotFile), now = 1, mkdirSync = None\<rparr> fresh) =
     Inl (Error ''Failed to sync from GitHub: Methodologies directory not found or not a directory'') \<and>
   fst (forceSync only_digits
          \<lparr>listing = Entries [], content = (\<lambda>p. NotFile), now = 1,
           mkdirSync = Some ''EACCES: permission denied''\<rparr> fresh) =
     Inl (Error ''Failed to sync from GitHub: EACCES: permission denied'')"
proof -
  let ?env = "repository [(''lost.json'', FetchError ''Not Found'')]"
  have l: "listing ?env = Entries [json_entry ''lost.json'']" by (simp add: repository_def)
  have r: "localDir_exists fresh \<or> mkdirSync ?env = None" by (simp add: repository_def)
  have r': "localDir_exists (fresh\<lparr>requests := requests fresh @ [''methodologies'']\<rparr>)
      \<or> mkdirSync ?env = None" by (simp add: repository_def)
  have 1: "fst (syncFromGitHub only_digits ?env fresh) =
     Inr (no_outcome\<lparr>errors := [(''lost.json'', Error ''Not Found'')]\<rparr>)"
    unfolding syncFromGitHub_def run_listed_Entries [OF l r']
    by (simp add: sync_entry_cases sync_eval)
  from run_outcome [of ?env "[json_entry ''lost.json'']" fresh only_digits "[]"] l r
  have 0: "fst (forceSync only_digits ?env fresh) = Inr ()"
    by auto
  from run_outcome [of "\<lparr>listing = ListingError ''Bad credentials'', content = (\<lambda>p. NotFile), now = 1,
           mkdirSync = None\<rparr>"
      "[]" fresh only_digits "''Bad credentials''"]
  have 2: "fst (forceSync only_digits
          \<lparr>listing = ListingError ''Bad credentials'', content = (\<lambda>p. NotFile), now = 1,
           mkdirSync = None\<rparr> fresh) =
     Inl (Error ''Failed to sync from GitHub: Bad credentials'')"
    by simp
  from run_outcome [of "\<lparr>listing = NotArray, content = (\<lambda>p. NotFile), now = 1, mkdirSync = None\<rparr>"
      "[]" fresh only_digits "[]"]
  have 3: "fst (forceSync only_digits
          \<lparr>listing = NotArray, content = (\<lambda>p. NotFile), now = 1, mkdirSync = None\<rparr> fresh) =
     Inl (Error ''Failed to sync from GitHub: Methodologies directory not found or not a directory'')"
    by simp
  from run_outcome [of "\<lparr>listing = Entries [], content = (\<lambda>p. NotFile), now = 1,
           mkdirSync = Some ''EACCES: permission denied''\<rparr>"
      "[]" fresh only_digits "''EACCES: permission denied''"]
  have 4: "fst (forceSync only_digits
          \<lparr>listing = Entries [], content = (\<lambda>p. NotFile), now = 1,
           mkdirSync = Some ''EACCES: permission denied''\<rparr> fresh) =
     Inl (Error ''Failed to sync from GitHub: EACCES: permission denied'')"
    by (simp add: fresh_def)
  from 0 1 2 3 4 show ?thesis by simp
qed

text \<open>
  C2 as stated, that every run completes with the three lists, fails when the listing
  request is answered "Not Found".
\<close>

theorem listing_failure_counterexample:
  "fst (syncFromGitHub only_digits
          \<lparr>listing = ListingError ''Not Found'', content = (\<lambda>p. NotFile), now = 1,
           mkdirSync = None\<rparr> fresh) =
     Inl (Error ''Failed to sync from GitHub: Not Found'') \<and>
   fst (forceSync only_digits
          \<lparr>listing = ListingError ''Not Found'', content = (\<lambda>p. NotFile), now = 1,
           mkdirSync = None\<rparr> fresh) =
     Inl (Error ''Failed to sync from GitHub: Not Found'')"
  by (simp add: syncFromGitHub_def forceSync_def run_listed_def)

text \<open>
  C6. When the request for a file fails, its content does not parse, or the record does
  not validate, the run records the error under the file's name, changes nothing else
  but the request log, and goes on with the entries after it exactly as it would
  from that state; a run that has listed its entries, and whose local directory exists
  or can be made, returns its three lists with that error among them.
\<close>

theorem sync_continues_after_failure:
  assumes "is_methodology_file file" and "file_failure env file = Some e"
  shows "sync_entries other env (before @ file # rest) st =
           sync_entries other env rest
             (record_failure file e (sync_entries other env before st)) \<and>
         (listing env = Entries (before @ file # rest) \<and>
          (localDir_exists w \<or> mkdirSync env = None) \<longrightarrow>
            (\<exists>out w'. syncFromGitHub other env w = (Inr out, w') \<and>
               (ent_name file, e) \<in> set (errors out)))"
proof -
  have "(ent_name file, e) \<in> set (errors (snd (sync_entries other env (before @ file # rest) st')))"
    for st'
    by (rule sync_entries_failure_recorded [OF _ assms]) simp
  then show ?thesis
    by (simp add: sync_entries_append sync_entry_failure [OF assms] syncFromGitHub_def
        run_listed_Entries)
qed

theorem sync_continues_after_failure_witness:
  "file_failure
     (repository [(''broken.json'', FileData None),
                  (''gt-charmaz.json'', FileData (Some (sample ''gt-charmaz'' ''1.0.0'')))])
     (json_entry ''broken.json'') = Some (Error ''Invalid JSON format'') \<and>
   syncFromGitHub only_digits
     (repository [(''broken.json'', FileData None),
                  (''gt-charmaz.json'', FileData (Some (sample ''gt-charmaz'' ''1.0.0'')))])
     fresh =
     (Inr \<lparr>added = [Some (JStr ''gt-charmaz'')], updated = [],
           errors = [(''broken.json'', Error ''Invalid JSON format'')]\<rparr>,
      \<lparr>files = [''gt-charmaz.json'' \<mapsto> Parsed (sample ''gt-charmaz'' ''1.0.0'')],
       localDir_exists = True, lastSync = Some 1,
       requests = [''methodologies'', ''methodologies/broken.json'',
                   ''methodologies/gt-charmaz.json'']\<rparr>)"
proof -
  let ?env = "repository [(''broken.json'', FileData None),
                  (''gt-charmaz.json'', FileData (Some (sample ''gt-charmaz'' ''1.0.0'')))]"
  have f: "is_methodology_file (json_entry ''broken.json'')" by (simp add: sync_eval)
  have e: "file_failure ?env (json_entry ''broken.json'') = Some (Error ''Invalid JSON format'')"
    by (simp add: file_failure_def sync_eval)
  have l: "listing ?env = Entries ([] @ json_entry ''broken.json'' # [json_entry ''gt-charmaz.json''])"
    by (simp add: repository_def)
  have r: "localDir_exists (fresh\<lparr>requests := requests fresh @ [''methodologies'']\<rparr>)
      \<or> mkdirSync ?env = None"
    by (simp add: repository_def)
  have v: "versionPattern_test ''1.0.0''" by code_simp
  from sync_continues_after_failure [OF f e, of only_digits "[]" "[json_entry ''gt-charmaz.json'']"
      "(fresh\<lparr>requests := [''methodologies''], localDir_exists := True\<rparr>, no_outcome)" fresh]
  have "sync_entries only_digits ?env [json_entry ''broken.json'', json_entry ''gt-charmaz.json'']
          (fresh\<lparr>requests := [''methodologies''], localDir_exists := True\<rparr>, no_outcome) =
        sync_entries only_digits ?env [json_entry ''gt-charmaz.json'']
          (record_failure (json_entry ''broken.json'') (Error ''Invalid JSON format'')
             (fresh\<lparr>requests := [''methodologies''], localDir_exists := True\<rparr>, no_outcome))"
    by simp
  then have "syncFromGitHub only_digits ?env fresh =
     (Inr \<lparr>added = [Some (JStr ''gt-charmaz'')], updated = [],
           errors = [(''broken.json'', Error ''Invalid JSON format'')]\<rparr>,
      \<lparr>files = [''gt-charmaz.json'' \<mapsto> Parsed (sample ''gt-charmaz'' ''1.0.0'')],
       localDir_exists = True, lastSync = Some 1,
       requests = [''methodologies'', ''methodologies/broken.json'',
                   ''methodologies/gt-charmaz.json'']\<rparr>)"
    unfolding syncFromGitHub_def run_listed_Entries [OF l r]
    by (simp add: fresh_def) (simp add: record_failure_def sync_entry_cases v sync_eval)
  with e show ?thesis by simp
qed

text \<open>
  C10. An entry that is no file, or whose name does not end in \<^verbatim>\<open>.json\<close>, is passed
  over: the run with it is the run without it, with the same files, lists and requests.
  The requests of the loop are the paths of the entries that are \<^verbatim>\<open>.json\<close> files, in
  their order, and no others.
\<close>

theorem other_entries_skipped:
  "(\<not> is_methodology_file file \<longrightarrow>
      sync_entries other env (before @ file # rest) st =
        sync_entries other env (before @ rest) st) \<and>
   requests (fst (sync_entries other env contents st)) =
     requests (fst st) @ map ent_path (filter is_methodology_file contents)"
  by (simp add: sync_entries_append sync_entry_skip sync_entries_requests)

theorem other_entries_skipped_witness:
  "\<not> is_methodology_file \<lparr>ent_type = ''dir'', ent_name = ''drafts.json'', ent_path = ''methodologies/drafts.json''\<rparr> \<and>
   \<not> is_methodology_file \<lparr>ent_type = ''file'', ent_name = ''README.md'', ent_path = ''methodologies/README.md''\<rparr> \<and>
   sync_entries only_digits (repository [])
     [\<lparr>ent_type = ''dir'', ent_name = ''drafts.json'', ent_path = ''methodologies/drafts.json''\<rparr>,
      \<lparr>ent_type = ''file'', ent_name = ''README.md'', ent_path = ''methodologies/README.md''\<rparr>]
     (fresh, no_outcome) = (fresh, no_outcome)"
proof -
  let ?d = "\<lparr>ent_type = ''dir'', ent_name = ''drafts.json'', ent_path = ''methodologies/drafts.json''\<rparr>"
  let ?r = "\<lparr>ent_type = ''file'', ent_name = ''README.md'', ent_path = ''methodologies/README.md''\<rparr>"
  have d: "\<not> is_methodology_file ?d" by (simp add: sync_eval)
  have r: "\<not> is_methodology_file ?r" by (simp add: sync_eval)
  from other_entries_skipped [of ?d only_digits "repository []" "[]" "[?r]" "(fresh, no_outcome)" "[]"] d
  have 1: "sync_entries only_digits (repository []) [?d, ?r] (fresh, no_outcome) =
           sync_entries only_digits (repository []) [?r] (fresh, no_outcome)"
    by simp
  from other_entries_skipped [of ?r only_digits "repository []" "[]" "[]" "(fresh, no_outcome)" "[]"] r
  have 2: "sync_entries only_digits (repository []) [?r] (fresh, no_outcome) = (fresh, no_outcome)"
    by simp
  from d r 1 2 show ?thesis by simp
qed

section \<open>Idempotence\<close>

subsection \<open>Auxiliary facts\<close>

lemma compareVersions_refl: "compareVersions other s s = 0"
  by (simp add: compareVersions_def Let_def compare_from_unfold js_gt_def js_lt_def num_less_irrefl)

lemma get_stored_obj:
  "map_of (map (\<lambda>kv. (fst kv, stored (snd kv))) kvs) field = map_option stored (map_of kvs field)"
  by (induction kvs) auto

lemma decide_after_write:
  assumes "decide other fd lf = Write m u"
  shows "\<not> is_Write (decide other fd (Some (Parsed (stored m))))"
proof -
  from decide_Write_valid [OF assms] have fd: "fd = FileData (Some m)"
    and v: "validateMethodology m = Inr ()" by simp_all
  from validate_obj [OF v] obtain kvs where m: "m = JObj kvs" by blast
  show ?thesis
  proof (cases "map_of kvs ''version''")
    case None
    then show ?thesis
      using v by (simp add: decide_def fd m get_stored_obj compareVersions_call_def)
  next
    case (Some x)
    then show ?thesis
      using v by (cases x)
        (simp_all add: decide_def fd m get_stored_obj compareVersions_call_def compareVersions_refl)
  qed
qed

lemma sync_entry_quiet:
  "quiet other env (files (fst (sync_entry other env f st))) f"
proof (cases "is_methodology_file f")
  case True
  obtain w out where st: "st = (w, out)" by (cases st)
  show ?thesis
  proof (cases "decide other (content env (ent_path f)) (files w (basename (ent_path f)))")
    case (Write m u)
    with decide_after_write [OF Write] show ?thesis
      by (simp add: st sync_entry_cases [OF True] quiet_def)
  qed (simp_all add: st sync_entry_cases [OF True] quiet_def)
qed (simp add: quiet_def)

lemma sync_entry_frame:
  "\<not> is_methodology_file g \<or> k \<noteq> basename (ent_path g) \<Longrightarrow>
   files (fst (sync_entry other env g st)) k = files (fst st) k"
proof (cases "is_methodology_file g")
  case True
  assume a: "\<not> is_methodology_file g \<or> k \<noteq> basename (ent_path g)"
  obtain w out where st: "st = (w, out)" by (cases st)
  from a True show ?thesis
    by (cases "decide other (content env (ent_path g)) (files w (basename (ent_path g)))")
       (simp_all add: st sync_entry_cases [OF True])
qed (simp add: sync_entry_skip)

lemma sync_entries_frame:
  "k \<notin> set (local_names contents) \<Longrightarrow>
   files (fst (sync_entries other env contents st)) k = files (fst st) k"
proof (induction contents arbitrary: st)
  case (Cons g rest)
  from Cons.prems have 1: "\<not> is_methodology_file g \<or> k \<noteq> basename (ent_path g)"
    and 2: "k \<notin> set (local_names rest)"
    by (auto simp: local_names_def)
  show ?case
    by (simp add: Cons.IH [OF 2] sync_entry_frame [OF 1])
qed simp

lemma sync_entries_all_quiet:
  "distinct (local_names contents) \<Longrightarrow> f \<in> set contents \<Longrightarrow>
   quiet other env (files (fst (sync_entries other env contents st))) f"
proof (induction contents arbitrary: st)
  case (Cons g rest)
  from Cons.prems(1) have d: "distinct (local_names rest)"
    by (simp add: local_names_def split: if_splits)
  show ?case
  proof (cases "f \<in> set rest")
    case True
    from Cons.IH [OF d True] show ?thesis by simp
  next
    case False
    with Cons.prems(2) have fg: "f = g" by simp
    show ?thesis
    proof (cases "is_methodology_file g")
      case True
      with Cons.prems(1) have "basename (ent_path g) \<notin> set (local_names rest)"
        by (simp add: local_names_def)
      from sync_entries_frame [OF this]
      have "files (fst (sync_entries other env rest (sync_entry other env g st))) (basename (ent_path g))
          = files (fst (sync_entry other env g st)) (basename (ent_path g))" .
      then have "quiet other env (files (fst (sync_entries other env rest (sync_entry other env g st)))) g
          = quiet other env (files (fst (sync_entry other env g st))) g"
        by (simp add: quiet_def)
      with sync_entry_quiet [of other env g st] show ?thesis by (simp add: fg)
    qed (simp add: fg quiet_def)
  qed
qed simp

lemma sync_entry_of_quiet:
  assumes "quiet other env (files (fst st)) f" "content env' = content env"
  shows "files (fst (sync_entry other env' f st)) = files (fst st) \<and>
         added (snd (sync_entry other env' f st)) = added (snd st) \<and>
         updated (snd (sync_entry other env' f st)) = updated (snd st)"
proof (cases "is_methodology_file f")
  case True
  obtain w out where st: "st = (w, out)" by (cases st)
  from assms True show ?thesis
    by (cases "decide other (content env (ent_path f)) (files w (basename (ent_path f)))")
       (simp_all add: st sync_entry_cases [OF True] quiet_def)
qed (simp add: sync_entry_skip)

lemma sync_entries_of_quiet:
  assumes "content env' = content env"
  shows "(\<And>f. f \<in> set contents \<Longrightarrow> quiet other env (files (fst st)) f) \<Longrightarrow>
         files (fst (sync_entries other env' contents st)) = files (fst st) \<and>
         added (snd (sync_entries other env' contents st)) = added (snd st) \<and>
         updated (snd (sync_entries other env' contents st)) = updated (snd st)"
proof (induction contents arbitrary: st)
  case (Cons g rest)
  have q: "quiet other env (files (fst st)) g" by (rule Cons.prems) simp
  note s = sync_entry_of_quiet [OF q assms]
  have "quiet other env (files (fst (sync_entry other env' g st))) f" if "f \<in> set rest" for f
    using Cons.prems [of f] that s by simp
  from Cons.IH [of "sync_entry other env' g st", OF this] s show ?case by simp
qed simp

subsection \<open>The second run\<close>

text \<open>
  C5. Take a run that lists its entries and completes, where no two \<^verbatim>\<open>.json\<close> files
  of the listing have the same file name (as in any directory), and then a second run
  against the same listing and the same file contents. The second run completes with
  \<^verbatim>\<open>added = []\<close> and \<^verbatim>\<open>updated = []\<close>, and leaves the local files as they are.
\<close>

theorem sync_idempotent:
  assumes "listing env = Entries contents"
    and "distinct (local_names contents)"
    and "listing env' = listing env" and "content env' = content env"
    and "syncFromGitHub other env w = (Inr out1, w1)"
    and "syncFromGitHub other env' w1 = (r2, w2)"
  shows "\<exists>out2. r2 = Inr out2 \<and> added out2 = [] \<and> updated out2 = [] \<and> files w2 = files w1"
proof -
  let ?w = "w\<lparr>requests := requests w @ [''methodologies'']\<rparr>"
  let ?st1 = "sync_entries other env contents (?w\<lparr>localDir_exists := True\<rparr>, no_outcome)"
  let ?w1 = "w1\<lparr>requests := requests w1 @ [''methodologies'']\<rparr>"
  let ?st0 = "(?w1\<lparr>localDir_exists := True\<rparr>, no_outcome)"
  from assms(5) have r: "localDir_exists ?w \<or> mkdirSync env = None"
    by (cases "localDir_exists w"; cases "mkdirSync env")
       (simp_all add: syncFromGitHub_def run_listed_mkdir_fails [OF assms(1)])
  from assms(5) have w1: "w1 = (fst ?st1)\<lparr>lastSync := Some (now env)\<rparr>"
    by (simp add: syncFromGitHub_def run_listed_Entries [OF assms(1) r])
  then have "localDir_exists w1" by (simp add: sync_entries_localDir)
  then have r': "localDir_exists ?w1 \<or> mkdirSync env' = None" by simp
  have "quiet other env (files (fst ?st0)) f" if "f \<in> set contents" for f
    using sync_entries_all_quiet [OF assms(2) that, of other env] by (simp add: w1)
  from sync_entries_of_quiet [OF assms(4), of contents other ?st0, OF this]
  have "files (fst (sync_entries other env' contents ?st0)) = files w1"
    "added (snd (sync_entries other env' contents ?st0)) = []"
    "updated (snd (sync_entries other env' contents ?st0)) = []"
    by (simp_all add: no_outcome_def)
  moreover from assms(1,3) have "listing env' = Entries contents" by simp
  ultimately show ?thesis
    using assms(6) r' by (auto simp: syncFromGitHub_def run_listed_Entries)
qed

theorem sync_idempotent_witness:
  "distinct (local_names [json_entry ''gt-charmaz.json'']) \<and>
   syncFromGitHub only_digits
     (repository [(''gt-charmaz.json'', FileData (Some (sample ''gt-charmaz'' ''1.0.0'')))]) fresh =
     (Inr \<lparr>added = [Some (JStr ''gt-charmaz'')], updated = [], errors = []\<rparr>,
      \<lparr>files = [''gt-charmaz.json'' \<mapsto> Parsed (sample ''gt-charmaz'' ''1.0.0'')],
       localDir_exists = True, lastSync = Some 1,
       requests = [''methodologies'', ''methodologies/gt-charmaz.json'']\<rparr>) \<and>
   syncFromGitHub only_digits
     (repository [(''gt-charmaz.json'', FileData (Some (sample ''gt-charmaz'' ''1.0.0'')))])
     \<lparr>files = [''gt-charmaz.json'' \<mapsto> Parsed (sample ''gt-charmaz'' ''1.0.0'')],
      localDir_exists = True, lastSync = Some 1,
      requests = [''methodologies'', ''methodologies/gt-charmaz.json'']\<rparr> =
     (Inr \<lparr>added = [], updated = [], errors = []\<rparr>,
      \<lparr>files = [''gt-charmaz.json'' \<mapsto> Parsed (sample ''gt-charmaz'' ''1.0.0'')],
       localDir_exists = True, lastSync = Some 1,
       requests = [''methodologies'', ''methodologies/gt-charmaz.json'',
                   ''methodologies'', ''methodologies/gt-charmaz.json'']\<rparr>)"
proof -
  let ?env = "repository [(''gt-charmaz.json'', FileData (Some (sample ''gt-charmaz'' ''1.0.0'')))]"
  let ?w1 = "\<lparr>files = [''gt-charmaz.json'' \<mapsto> Parsed (sample ''gt-charmaz'' ''1.0.0'')],
       localDir_exists = True, lastSync = Some 1,
       requests = [''methodologies'', ''methodologies/gt-charmaz.json'']\<rparr>"
  let ?w2 = "\<lparr>files = [''gt-charmaz.json'' \<mapsto> Parsed (sample ''gt-charmaz'' ''1.0.0'')],
       localDir_exists = True, lastSync = Some 1,
       requests = [''methodologies'', ''methodologies/gt-charmaz.json'',
                   ''methodologies'', ''methodologies/gt-charmaz.json'']\<rparr>"
  have l: "listing ?env = Entries [json_entry ''gt-charmaz.json'']" by (simp add: repository_def)
  have d: "distinct (local_names [json_entry ''gt-charmaz.json''])" by (simp add: local_names_def)
  have v: "versionPattern_test ''1.0.0''" by code_simp
  have c: "compareVersions only_digits ''1.0.0'' ''1.0.0'' = 0" by (simp add: version_eval)
  have m: "mkdirSync ?env = None" by (simp add: repository_def)
  have 1: "syncFromGitHub only_digits ?env fresh =
     (Inr \<lparr>added = [Some (JStr ''gt-charmaz'')], updated = [], errors = []\<rparr>, ?w1)"
    unfolding syncFromGitHub_def run_listed_Entries [OF l disjI2 [OF m]]
    by (simp add: sync_entry_cases v sync_eval)
  have 2: "syncFromGitHub only_digits ?env ?w1 =
     (Inr \<lparr>added = [], updated = [], errors = []\<rparr>, ?w2)"
    unfolding syncFromGitHub_def run_listed_Entries [OF l disjI2 [OF m]]
    by (simp add: sync_entry_cases v c sync_eval)
  from sync_idempotent [OF l d refl refl 1 2] d 1 2 show ?thesis by simp
qed

section \<open>Runs in flight\<close>

subsection \<open>Auxiliary facts\<close>

text \<open>
  A run resumed alone, often enough, ends with the result and the state of
  \<open>syncFromGitHub\<close>: the steps are the function cut at its awaits.
\<close>

lemma in_flight_start_run: "runs_in_flight (start_run e) = Suc (runs_in_flight e)"
  by (simp add: runs_in_flight_def start_run_def)

lemma in_flight_triggers: "runs_in_flight ((triggerSync ^^ n) e) = runs_in_flight e + n"
  by (induction n) (simp_all add: triggerSync_def in_flight_start_run)

lemma finish_Settled: "finish other env n (Settled r, w) = (Settled r, w)"
  by (induction n) simp_all

lemma resume_advance:
  "resume other env (fst (advance env (f # rest) out w)) (snd (advance env (f # rest) out w)) =
     (if is_methodology_file f
      then advance env rest (snd (sync_entry other env f (w, out))) (fst (sync_entry other env f (w, out)))
      else resume other env (fst (advance env rest out w)) (snd (advance env rest out w)))"
  by (simp add: sync_entry_def syncMethodologyFile_def split: prod.splits)

lemma finish_advance:
  "length (filter is_methodology_file contents) \<le> n \<Longrightarrow>
   finish other env n (advance env contents out w) =
     (Settled (Inr (snd (sync_entries other env contents (w, out)))),
      (fst (sync_entries other env contents (w, out)))\<lparr>lastSync := Some (now env)\<rparr>)"
proof (induction contents arbitrary: n out w)
  case Nil
  then show ?case by (simp add: finish_Settled)
next
  case (Cons f rest)
  show ?case
  proof (cases "is_methodology_file f")
    case True
    with Cons.prems obtain k where n: "n = Suc k" and k: "length (filter is_methodology_file rest) \<le> k"
      by (cases n) auto
    obtain w' out' where s: "sync_entry other env f (w, out) = (w', out')"
      by (cases "sync_entry other env f (w, out)")
    have "finish other env n (advance env (f # rest) out w) =
          finish other env k (advance env rest out' w')"
      unfolding n finish.simps resume_advance using True by (simp add: s)
    with Cons.IH [OF k, of out' w'] show ?thesis by (simp add: s)
  next
    case False
    with Cons.prems have "length (filter is_methodology_file rest) \<le> n" by simp
    from Cons.IH [OF this, of out w] False show ?thesis
      by (simp add: sync_entry_skip)
  qed
qed

lemma single_run_agrees:
  assumes "case listing env of Entries contents \<Rightarrow> length (filter is_methodology_file contents) \<le> n
           | _ \<Rightarrow> True"
  shows "finish other env (Suc n) (AwaitListing, w\<lparr>requests := requests w @ [''methodologies'']\<rparr>) =
     (Settled (fst (syncFromGitHub other env w)), snd (syncFromGitHub other env w))"
proof (cases "listing env")
  case (Entries contents)
  let ?w = "w\<lparr>requests := requests w @ [''methodologies'']\<rparr>"
  from Entries assms have n: "length (filter is_methodology_file contents) \<le> n" by simp
  show ?thesis
  proof (cases "ensure_localDir env ?w")
    case (Inl msg)
    with Entries show ?thesis
      by (simp add: syncFromGitHub_def run_listed_def finish_Settled)
  next
    case (Inr w1)
    with finish_advance [OF n] Entries show ?thesis
      by (simp add: syncFromGitHub_def run_listed_def split: prod.splits)
  qed
qed (simp_all add: syncFromGitHub_def run_listed_def finish_Settled)

subsection \<open>Triggers\<close>

text \<open>
  C3, as the code has it. The engine is not single-flight. A manual trigger starts a
  run whatever runs are in flight, and so does the timer when it is set: after \<open>n\<close>
  triggers there are \<open>n\<close> more runs in flight, and each has sent its own listing
  request.
\<close>

theorem every_trigger_starts_a_run:
  "runs_in_flight (triggerSync e) = runs_in_flight e + 1 \<and>
   runs_in_flight (timer_fire e) = (if syncTimer e then runs_in_flight e + 1 else runs_in_flight e) \<and>
   runs_in_flight ((triggerSync ^^ n) e) = runs_in_flight e + n \<and>
   requests (world (triggerSync e)) = requests (world e) @ [''methodologies'']"
  by (simp add: in_flight_triggers triggerSync_def timer_fire_def in_flight_start_run)
     (simp add: start_run_def)

text \<open>
  C3 as stated fails: two triggers in succession, or a trigger and a timer fire, leave
  two runs in flight; resumed in turn, both have listed the directory and both have
  requested the file.
\<close>

theorem single_flight_counterexample:
  "runs_in_flight idle = 0 \<and>
   runs_in_flight (triggerSync idle) = 1 \<and>
   runs_in_flight (triggerSync (triggerSync idle)) = 2 \<and>
   runs_in_flight (timer_fire (triggerSync idle)) = 2 \<and>
   runs (resume_run only_digits
           (repository [(''gt-charmaz.json'', FileData (Some (sample ''gt-charmaz'' ''1.0.0'')))]) 1
        (resume_run only_digits
           (repository [(''gt-charmaz.json'', FileData (Some (sample ''gt-charmaz'' ''1.0.0'')))]) 0
           (triggerSync (triggerSync idle)))) =
     [AwaitFile (json_entry ''gt-charmaz.json'') [] no_outcome,
      AwaitFile (json_entry ''gt-charmaz.json'') [] no_outcome] \<and>
   requests (world (resume_run only_digits
           (repository [(''gt-charmaz.json'', FileData (Some (sample ''gt-charmaz'' ''1.0.0'')))]) 1
        (resume_run only_digits
           (repository [(''gt-charmaz.json'', FileData (Some (sample ''gt-charmaz'' ''1.0.0'')))]) 0
           (triggerSync (triggerSync idle))))) =
     [''methodologies'', ''methodologies'',
      ''methodologies/gt-charmaz.json'', ''methodologies/gt-charmaz.json'']"
  by (simp add: runs_in_flight_def triggerSync_def timer_fire_def start_run_def idle_def
      resume_run_def repository_def json_entry_def is_methodology_file_def endsWith_def fresh_def
      ensure_localDir_def)

end
